theory Spec2Isabelle
  imports Main "HOL-Library.Word" "HOL-Library.Sublist"
begin

unbundle bit_operations_syntax

section \<open>Epson S1D135xx primitives (epson/epson-s1d135xx.c)\<close>

text \<open>
  The driver is built for the MSP430: \<open>int\<close> and \<open>unsigned\<close> are 16 bits wide,
  \<open>uint16_t\<close> and \<open>uint8_t\<close> are 16 and 8 bits. Arithmetic on them wraps.
\<close>

type_synonym c_int = "16 word"
type_synonym u16 = "16 word"
type_synonym u8 = "8 word"

subsection \<open>Data model\<close>

text \<open>
  Modelled from the spec: the GPIO pin identifier and its sentinel \<open>PL_GPIO_NONE\<close>
  come from \<open>pl/gpio.h\<close>, which is not part of the sources at hand. The spec only
  says that a sentinel "no pin" value exists beside the real pin numbers; the source
  only ever compares a pin with that sentinel.
\<close>

datatype pl_gpio_pin = PL_GPIO_NONE | Pin nat

text \<open>
  Modelled from the spec: \<open>enum pl_epdc_power_state\<close> (\<open>pl/epdc.h\<close>) with the four
  states Run, Standby, Sleep and Off. The source indexes its command table
  \<open>pwr_cmds\<close> by the enumeration value, Run, Standby, Sleep being 0, 1, 2 in the
  order of the table; Off is dispatched before the table is read.
\<close>

datatype pl_epdc_power_state = PL_EPDC_RUN | PL_EPDC_STANDBY | PL_EPDC_SLEEP | PL_EPDC_OFF

fun power_state_index :: "pl_epdc_power_state \<Rightarrow> nat" where
  "power_state_index PL_EPDC_RUN = 0"
| "power_state_index PL_EPDC_STANDBY = 1"
| "power_state_index PL_EPDC_SLEEP = 2"
| "power_state_index PL_EPDC_OFF = 3"

text \<open>
  Modelled from the spec: \<open>struct s1d135xx_data\<close> and \<open>struct s1d135xx\<close>
  (\<open>epson-s1d135xx.h\<close>): the pin assignments, the mask and expected pattern of the
  status register poll, and the currently believed power state. The source reads
  \<open>p->data->reset\<close>, \<open>cs0\<close>, \<open>hdc\<close>, \<open>hrdy\<close>, \<open>p->hrdy_mask\<close> and
  \<open>p->hrdy_result\<close>; \<open>p->gpio\<close> is the GPIO interface of the machine below.
\<close>

record s1d135xx_data =
  reset :: pl_gpio_pin
  cs0 :: pl_gpio_pin
  hdc :: pl_gpio_pin
  hrdy :: pl_gpio_pin

record s1d135xx =
  data :: s1d135xx_data
  hrdy_mask :: u16
  hrdy_result :: u16
  power_state :: pl_epdc_power_state

text \<open>
  Modelled from the spec: \<open>struct pl_area\<close> (\<open>pl/types.h\<close>), a rectangle of four
  \<open>int\<close> coordinates. The field \<open>top\<close> is written \<open>top_y\<close> here.
\<close>

record pl_area =
  left :: c_int
  top_y :: c_int
  width :: c_int
  height :: c_int

subsection \<open>The machine around the driver\<close>

text \<open>
  Everything the driver calls but does not define (GPIO, SPI transport, delays, the
  FatFs file, the log) is an event appended to a trace; everything it reads from
  outside comes from the environment, indexed by how much was read before.
\<close>

datatype endian = LittleEndian | BigEndian

text \<open>
  The result of FatFs's \<open>f_open\<close> (\<open>ff.h\<close>): the source only tells \<open>FR_OK\<close> from
  every other result, which \<open>FR_ERR\<close> stands for. \<open>transfer_file\<close> is a helper of
  the firmware that sends the open file over the bus and returns 0 on success; it
  is one event here, and its result comes from the environment.
\<close>

datatype fresult = FR_OK | FR_ERR

datatype event =
    GpioSet pl_gpio_pin c_int
  | GpioGet pl_gpio_pin c_int
  | MDelay nat
  | SpiWrite "u8 list"
  | SpiRead "u8 list"
  | Log string
  | FOpen string
  | FClose
  | TransferFile

text \<open>
  The register numbers \<open>S1D135XX_REG_*\<close> are declared in \<open>epson-s1d135xx.h\<close> and
  are parameters here, as is the byte order of the host.
\<close>

record env =
  host :: endian
  REG_SOFTWARE_RESET :: u16
  REG_SYSTEM_STATUS :: u16
  REG_SEQ_AUTOBOOT_CMD :: u16
  gpio_in :: "nat \<Rightarrow> pl_gpio_pin \<Rightarrow> c_int"
  spi_rx :: "nat \<Rightarrow> u8"
  f_open_res :: fresult
  transfer_res :: c_int

record sys =
  dev :: s1d135xx
  env :: env
  gpio_cnt :: nat
  rx_pos :: nat
  trace :: "event list"

definition emit :: "event \<Rightarrow> sys \<Rightarrow> sys" where
  "emit e s = s\<lparr>trace := trace s @ [e]\<rparr>"

definition gpio_set :: "pl_gpio_pin \<Rightarrow> c_int \<Rightarrow> sys \<Rightarrow> sys" where
  "gpio_set pin state s = emit (GpioSet pin state) s"

definition gpio_get :: "pl_gpio_pin \<Rightarrow> sys \<Rightarrow> c_int \<times> sys" where
  "gpio_get pin s =
     (let v = gpio_in (env s) (gpio_cnt s) pin
      in (v, emit (GpioGet pin v) (s\<lparr>gpio_cnt := Suc (gpio_cnt s)\<rparr>)))"

definition mdelay :: "nat \<Rightarrow> sys \<Rightarrow> sys" where
  "mdelay ms s = emit (MDelay ms) s"

definition LOG :: "string \<Rightarrow> sys \<Rightarrow> sys" where
  "LOG msg s = emit (Log msg) s"

definition spi_write_bytes :: "u8 list \<Rightarrow> sys \<Rightarrow> sys" where
  "spi_write_bytes buff s = emit (SpiWrite buff) s"

fun rx_bytes :: "(nat \<Rightarrow> u8) \<Rightarrow> nat \<Rightarrow> nat \<Rightarrow> u8 list" where
  "rx_bytes f pos 0 = []"
| "rx_bytes f pos (Suc n) = f pos # rx_bytes f (Suc pos) n"

definition spi_read_bytes :: "nat \<Rightarrow> sys \<Rightarrow> u8 list \<times> sys" where
  "spi_read_bytes len s =
     (let buff = rx_bytes (spi_rx (env s)) (rx_pos s) len
      in (buff, emit (SpiRead buff) (s\<lparr>rx_pos := rx_pos s + len\<rparr>)))"

definition f_open :: "string \<Rightarrow> sys \<Rightarrow> fresult \<times> sys" where
  "f_open path s = (f_open_res (env s), emit (FOpen path) s)"

definition f_close :: "sys \<Rightarrow> sys" where
  "f_close s = emit FClose s"

definition transfer_file :: "sys \<Rightarrow> c_int \<times> sys" where
  "transfer_file s = (transfer_res (env s), emit TransferFile s)"

subsection \<open>Byte order\<close>

text \<open>
  \<open>bytes_of\<close> is the object representation of a \<open>uint16_t\<close> in the host's memory,
  lowest address first, which is what the cast \<open>(uint8_t *)&cmd\<close> exposes;
  \<open>of_bytes\<close> reads such an object back. A buffer that is not two bytes long is no
  \<open>uint16_t\<close>; the driver never builds one.
\<close>

definition hi_byte :: "u16 \<Rightarrow> u8" where
  "hi_byte v = ucast (drop_bit 8 v)"

definition lo_byte :: "u16 \<Rightarrow> u8" where
  "lo_byte v = ucast v"

definition join16 :: "u8 \<Rightarrow> u8 \<Rightarrow> u16" where
  "join16 hi lo = push_bit 8 (ucast hi) OR ucast lo"

fun bytes_of :: "endian \<Rightarrow> u16 \<Rightarrow> u8 list" where
  "bytes_of LittleEndian v = [lo_byte v, hi_byte v]"
| "bytes_of BigEndian v = [hi_byte v, lo_byte v]"

fun of_bytes :: "endian \<Rightarrow> u8 list \<Rightarrow> u16" where
  "of_bytes LittleEndian [b0, b1] = join16 b1 b0"
| "of_bytes BigEndian [b0, b1] = join16 b0 b1"
| "of_bytes _ _ = 0"

text \<open>
  Modelled from the spec: \<open>htobe16\<close> and \<open>be16toh\<close> come from \<open>pl/endian.h\<close>, which
  is not part of the sources at hand. The spec says that each word is converted to
  big-endian byte order before it is written and from big-endian after it is read:
  the two bytes are swapped on a little-endian host and left alone on a big-endian
  one.
\<close>

definition swap_bytes :: "u16 \<Rightarrow> u16" where
  "swap_bytes v = join16 (lo_byte v) (hi_byte v)"

fun htobe16 :: "endian \<Rightarrow> u16 \<Rightarrow> u16" where
  "htobe16 LittleEndian v = swap_bytes v"
| "htobe16 BigEndian v = v"

fun be16toh :: "endian \<Rightarrow> u16 \<Rightarrow> u16" where
  "be16toh LittleEndian v = swap_bytes v"
| "be16toh BigEndian v = v"

subsection \<open>Constants of the driver\<close>

definition S1D135XX_WF_MODE :: "c_int \<Rightarrow> c_int" where
  "S1D135XX_WF_MODE wf_id = push_bit 8 wf_id AND 0x0F00"

definition S1D135XX_XMASK :: c_int where "S1D135XX_XMASK = 0x01FF"
definition S1D135XX_YMASK :: c_int where "S1D135XX_YMASK = 0x03FF"
definition S1D135XX_HRDY_TIMEOUT :: "16 word" where "S1D135XX_HRDY_TIMEOUT = 3000"
definition S1D135XX_INIT_CODE_CHECKSUM_OK :: u16 where
  "S1D135XX_INIT_CODE_CHECKSUM_OK = push_bit 15 1"

definition S1D135XX_CMD_INIT_SET :: u16 where "S1D135XX_CMD_INIT_SET = 0x00"
definition S1D135XX_CMD_RUN :: u16 where "S1D135XX_CMD_RUN = 0x02"
definition S1D135XX_CMD_STBY :: u16 where "S1D135XX_CMD_STBY = 0x04"
definition S1D135XX_CMD_SLEEP :: u16 where "S1D135XX_CMD_SLEEP = 0x05"
definition S1D135XX_CMD_INIT_STBY :: u16 where "S1D135XX_CMD_INIT_STBY = 0x06"
definition S1D135XX_CMD_READ_REG :: u16 where "S1D135XX_CMD_READ_REG = 0x10"
definition S1D135XX_CMD_WRITE_REG :: u16 where "S1D135XX_CMD_WRITE_REG = 0x11"
definition S1D135XX_CMD_WAIT_DSPE_TRG :: u16 where "S1D135XX_CMD_WAIT_DSPE_TRG = 0x28"
definition S1D135XX_CMD_WAIT_DSPE_FREND :: u16 where "S1D135XX_CMD_WAIT_DSPE_FREND = 0x29"
definition S1D135XX_CMD_UPDATE_FULL :: u16 where "S1D135XX_CMD_UPDATE_FULL = 0x33"
definition S1D135XX_CMD_UPDATE_FULL_AREA :: u16 where "S1D135XX_CMD_UPDATE_FULL_AREA = 0x34"
definition S1D135XX_CMD_EPD_GDRV_CLR :: u16 where "S1D135XX_CMD_EPD_GDRV_CLR = 0x37"

subsection \<open>Private functions\<close>

definition set_cs :: "c_int \<Rightarrow> sys \<Rightarrow> sys" where
  "set_cs state s = gpio_set (cs0 (data (dev s))) state s"

definition set_hdc :: "c_int \<Rightarrow> sys \<Rightarrow> sys" where
  "set_hdc state s =
     (if hdc (data (dev s)) \<noteq> PL_GPIO_NONE then gpio_set (hdc (data (dev s))) state s else s)"

definition send_cmd :: "u16 \<Rightarrow> sys \<Rightarrow> sys" where
  "send_cmd cmd s =
     (let cmd = htobe16 (host (env s)) cmd
      in spi_write_bytes (bytes_of (host (env s)) cmd) s)"

definition send_param :: "u16 \<Rightarrow> sys \<Rightarrow> sys" where
  "send_param param s =
     (let param = htobe16 (host (env s)) param
      in spi_write_bytes (bytes_of (host (env s)) param) s)"

fun send_params :: "u16 list \<Rightarrow> sys \<Rightarrow> sys" where
  "send_params [] s = s"
| "send_params (param # params) s = send_params params (send_param param s)"

subsection \<open>Register access\<close>

definition s1d135xx_cmd :: "u16 \<Rightarrow> u16 list \<Rightarrow> sys \<Rightarrow> sys" where
  "s1d135xx_cmd cmd params s =
     (let s = set_cs 0 s;
          s = send_cmd cmd s;
          s = send_params params s
      in set_cs 1 s)"

definition s1d135xx_read_reg :: "u16 \<Rightarrow> sys \<Rightarrow> u16 \<times> sys" where
  "s1d135xx_read_reg reg s =
     (let s = set_cs 0 s;
          s = send_cmd S1D135XX_CMD_READ_REG s;
          s = send_param reg s;
          (buf, s) = spi_read_bytes 2 s;
          val = of_bytes (host (env s)) buf;
          (buf, s) = spi_read_bytes 2 s;
          val = of_bytes (host (env s)) buf;
          s = set_cs 1 s
      in (be16toh (host (env s)) val, s))"

definition s1d135xx_write_reg :: "u16 \<Rightarrow> u16 \<Rightarrow> sys \<Rightarrow> sys" where
  "s1d135xx_write_reg reg val s =
     (let params = [reg, val];
          s = set_cs 0 s;
          s = send_cmd S1D135XX_CMD_WRITE_REG s;
          s = send_params params s
      in set_cs 1 s)"

subsection \<open>Ready-signal poll\<close>

definition get_hrdy :: "sys \<Rightarrow> c_int \<times> sys" where
  "get_hrdy s =
     (if hrdy (data (dev s)) \<noteq> PL_GPIO_NONE then gpio_get (hrdy (data (dev s))) s
      else
        (let (status, s) = s1d135xx_read_reg (REG_SYSTEM_STATUS (env s)) s
         in (if status AND hrdy_mask (dev s) = hrdy_result (dev s) then 1 else 0, s)))"

text \<open>
  The loop \<open>while (!get_hrdy(p) && --timeout) mdelay(1);\<close> of \<open>s1d135xx_wait_idle\<close>,
  returning the counter it leaves behind. The counter is an \<open>unsigned\<close>; the
  decrement is skipped when the chip is ready (\<open>&&\<close> short-circuits).
\<close>

function wait_loop :: "16 word \<Rightarrow> sys \<Rightarrow> 16 word \<times> sys" where
  "wait_loop timeout s =
     (let (rdy, s) = get_hrdy s
      in if rdy \<noteq> 0 then (timeout, s)
         else
           (let timeout = timeout - 1
            in if timeout \<noteq> 0 then wait_loop timeout (mdelay 1 s) else (timeout, s)))"
  by pat_completeness auto
termination
proof (relation "measure (\<lambda>(timeout, s). unat (timeout - 1))", goal_cases)
  case 1
  show ?case by simp
next
  case (2 timeout s x rdy s' t')
  then have nz: "t' \<noteq> 0" and eq: "t' = timeout - 1" by simp_all
  have "unat (t' - 1) = unat t' - 1" using nz by (rule unat_minus_one)
  moreover have "0 < unat t'" using nz by (simp add: unat_gt_0)
  ultimately have "unat (t' - 1) < unat t'" by simp
  then show ?case unfolding eq by simp
qed

declare wait_loop.simps [simp del]

definition s1d135xx_wait_idle :: "sys \<Rightarrow> c_int \<times> sys" where
  "s1d135xx_wait_idle s =
     (let (timeout, s) = wait_loop S1D135XX_HRDY_TIMEOUT s
      in if timeout = 0 then (- 1, LOG ''HRDY timeout'' s) else (0, s))"

subsection \<open>Public functions\<close>

definition s1d135xx_hard_reset :: "sys \<Rightarrow> sys" where
  "s1d135xx_hard_reset s =
     (if reset (data (dev s)) = PL_GPIO_NONE then LOG ''Warning: no hard reset'' s
      else
        (let s = gpio_set (reset (data (dev s))) 0 s;
             s = mdelay 4 s;
             s = gpio_set (reset (data (dev s))) 1 s
         in mdelay 10 s))"

definition s1d135xx_soft_reset :: "sys \<Rightarrow> c_int \<times> sys" where
  "s1d135xx_soft_reset s =
     (let s = s1d135xx_write_reg (REG_SOFTWARE_RESET (env s)) 0 s
      in s1d135xx_wait_idle s)"

definition init_code_path :: string where
  "init_code_path = ''bin/Ecode.bin''"

definition s1d135xx_load_init_code :: "sys \<Rightarrow> c_int \<times> sys" where
  "s1d135xx_load_init_code s =
     (let (fr, s) = f_open init_code_path s
      in if fr \<noteq> FR_OK then (- 1, s)
         else
           (let (idle, s) = s1d135xx_wait_idle s
            in if idle \<noteq> 0 then (- 1, s)
               else
                 (let s = set_cs 0 s;
                      s = send_cmd S1D135XX_CMD_INIT_SET s;
                      (stat, s) = transfer_file s;
                      s = set_cs 1 s;
                      s = f_close s;
                      (idle, s) = s1d135xx_wait_idle s
                  in if idle \<noteq> 0 then (- 1, s)
                     else if stat \<noteq> 0 then (- 1, LOG ''Failed to transfer init code file'' s)
                     else
                       (let (checksum, s) = s1d135xx_read_reg (REG_SEQ_AUTOBOOT_CMD (env s)) s
                        in if checksum AND S1D135XX_INIT_CODE_CHECKSUM_OK = 0
                           then (- 1, LOG ''Init code checksum error'' s)
                           else
                             (let s = set_cs 0 s;
                                  s = send_cmd S1D135XX_CMD_INIT_STBY s;
                                  s = set_cs 1 s;
                                  s = mdelay 100 s
                              in s1d135xx_wait_idle s)))))"

definition pwr_cmds :: "u8 list" where
  "pwr_cmds = [ucast S1D135XX_CMD_RUN, ucast S1D135XX_CMD_STBY, ucast S1D135XX_CMD_SLEEP]"

definition s1d135xx_set_power_state :: "pl_epdc_power_state \<Rightarrow> sys \<Rightarrow> c_int \<times> sys" where
  "s1d135xx_set_power_state state s =
     (if state = PL_EPDC_OFF then (0, LOG ''Warning: OFF mode not supported'' s)
      else
        (let (idle, s) = s1d135xx_wait_idle s
         in if idle \<noteq> 0 then (- 1, s)
            else
              (let s = set_cs 0 s;
                   s = send_cmd (ucast (pwr_cmds ! power_state_index state)) s;
                   s = set_cs 1 s
               in s1d135xx_wait_idle s)))"

definition s1d135xx_init_gate_drv :: "sys \<Rightarrow> c_int \<times> sys" where
  "s1d135xx_init_gate_drv s =
     (let (stat, s) = s1d135xx_set_power_state PL_EPDC_RUN s
      in if stat \<noteq> 0 then (- 1, s)
         else
           (let s = set_cs 0 s;
                s = send_cmd S1D135XX_CMD_EPD_GDRV_CLR s;
                s = set_cs 1 s
            in s1d135xx_wait_idle s))"

definition s1d135xx_wait_dspe_trig :: "sys \<Rightarrow> c_int \<times> sys" where
  "s1d135xx_wait_dspe_trig s =
     (let s = set_cs 0 s;
          s = send_cmd S1D135XX_CMD_WAIT_DSPE_TRG s;
          s = set_cs 1 s
      in s1d135xx_wait_idle s)"

definition s1d135xx_update :: "c_int \<Rightarrow> sys \<Rightarrow> c_int \<times> sys" where
  "s1d135xx_update wfid s =
     (let s = set_cs 0 s;
          s = send_cmd S1D135XX_CMD_UPDATE_FULL s;
          s = send_param (S1D135XX_WF_MODE wfid) s;
          s = set_cs 1 s;
          (idle, s) = s1d135xx_wait_idle s
      in if idle \<noteq> 0 then (- 1, s) else s1d135xx_wait_dspe_trig s)"

definition s1d135xx_update_area :: "c_int \<Rightarrow> pl_area \<Rightarrow> sys \<Rightarrow> c_int \<times> sys" where
  "s1d135xx_update_area wfid area s =
     (let params =
            [S1D135XX_WF_MODE wfid, left area AND S1D135XX_XMASK,
             top_y area AND S1D135XX_YMASK, width area AND S1D135XX_XMASK,
             height area AND S1D135XX_YMASK];
          s = set_cs 0 s;
          s = send_cmd S1D135XX_CMD_UPDATE_FULL_AREA s;
          s = send_params params s;
          s = set_cs 1 s;
          (idle, s) = s1d135xx_wait_idle s
      in if idle \<noteq> 0 then (- 1, s) else s1d135xx_wait_dspe_trig s)"

definition s1d135xx_wait_update_end :: "sys \<Rightarrow> c_int \<times> sys" where
  "s1d135xx_wait_update_end s =
     (let s = set_cs 0 s;
          s = send_cmd S1D135XX_CMD_WAIT_DSPE_FREND s;
          s = set_cs 1 s
      in s1d135xx_wait_idle s)"

section \<open>Observing a run\<close>

text \<open>
  \<open>poll_state s k\<close> is the machine as the check number \<open>k\<close> (counted from 0) of a
  wait finds it: each check before it was followed by \<open>mdelay(1)\<close>.
  \<open>ready_at s k\<close> says that this check reads the chip as ready.
\<close>

fun poll_state :: "sys \<Rightarrow> nat \<Rightarrow> sys" where
  "poll_state s 0 = s"
| "poll_state s (Suc k) = poll_state (mdelay 1 (snd (get_hrdy s))) k"

definition ready_at :: "sys \<Rightarrow> nat \<Rightarrow> bool" where
  "ready_at s k = (fst (get_hrdy (poll_state s k)) \<noteq> 0)"

text \<open>The events a step from \<open>s\<close> to \<open>s'\<close> added to the trace.\<close>

definition emitted :: "sys \<Rightarrow> sys \<Rightarrow> event list" where
  "emitted s s' = drop (length (trace s)) (trace s')"

text \<open>The wire form of a 16-bit word: two bytes, most significant first.\<close>

definition wire16 :: "u16 \<Rightarrow> u8 list" where
  "wire16 v = [hi_byte v, lo_byte v]"

text \<open>
  The levels written to the chip-select pin, in order. Chip-select is active low:
  0 asserts it, 1 deasserts it. \<open>cs_framed\<close> holds of a sequence of complete
  windows, each an assert followed by a deassert; \<open>cs_line\<close> is the level of the
  line after the writes, given its level before.
\<close>

fun cs_levels :: "pl_gpio_pin \<Rightarrow> event list \<Rightarrow> c_int list" where
  "cs_levels cs [] = []"
| "cs_levels cs (GpioSet pin l # evs) =
     (if pin = cs then l # cs_levels cs evs else cs_levels cs evs)"
| "cs_levels cs (_ # evs) = cs_levels cs evs"

fun cs_framed :: "c_int list \<Rightarrow> bool" where
  "cs_framed [] = True"
| "cs_framed [l] = False"
| "cs_framed (a # d # ls) = (a = 0 \<and> d = 1 \<and> cs_framed ls)"

fun cs_line :: "c_int \<Rightarrow> c_int list \<Rightarrow> c_int" where
  "cs_line l0 [] = l0"
| "cs_line l0 (l # ls) = cs_line l ls"

definition cs_closed :: "sys \<Rightarrow> sys \<Rightarrow> bool" where
  "cs_closed s s' =
     (let ls = cs_levels (cs0 (data (dev s))) (emitted s s')
      in cs_framed ls \<and> count_list ls 0 = count_list ls 1 \<and> cs_line 1 ls = 1)"

text \<open>What the chip sees: the pin writes and the words written to the bus.\<close>

fun bus_out :: "event list \<Rightarrow> event list" where
  "bus_out [] = []"
| "bus_out (GpioSet pin l # evs) = GpioSet pin l # bus_out evs"
| "bus_out (SpiWrite buff # evs) = SpiWrite buff # bus_out evs"
| "bus_out (_ # evs) = bus_out evs"

text \<open>
  The command codes of a trace: the first word written in each chip-select window.
  The flag says that a window has just been opened.
\<close>

fun cmd_codes :: "pl_gpio_pin \<Rightarrow> bool \<Rightarrow> event list \<Rightarrow> u16 list" where
  "cmd_codes cs opened [] = []"
| "cmd_codes cs opened (GpioSet pin l # evs) =
     (if pin = cs then cmd_codes cs (l = 0) evs else cmd_codes cs opened evs)"
| "cmd_codes cs opened (SpiWrite buff # evs) =
     (if opened then of_bytes BigEndian buff # cmd_codes cs False evs
      else cmd_codes cs False evs)"
| "cmd_codes cs opened (_ # evs) = cmd_codes cs opened evs"

text \<open>
  \<open>framed_run s s'\<close>: the run from \<open>s\<close> to \<open>s'\<close> left the device context and the
  environment alone, only added events, and wrote complete chip-select windows.
  \<open>silent_run\<close>: it wrote nothing that the chip sees.
\<close>

definition framed_run :: "sys \<Rightarrow> sys \<Rightarrow> bool" where
  "framed_run s s' \<longleftrightarrow>
     dev s' = dev s \<and> env s' = env s \<and> prefix (trace s) (trace s') \<and>
     cs_framed (cs_levels (cs0 (data (dev s))) (emitted s s'))"

definition silent_run :: "sys \<Rightarrow> sys \<Rightarrow> bool" where
  "silent_run s s' \<longleftrightarrow>
     dev s' = dev s \<and> env s' = env s \<and> prefix (trace s) (trace s') \<and>
     bus_out (emitted s s') = []"

text \<open>The GPIO operations of a trace.\<close>

fun gpio_ops :: "event list \<Rightarrow> event list" where
  "gpio_ops [] = []"
| "gpio_ops (GpioSet pin l # evs) = GpioSet pin l # gpio_ops evs"
| "gpio_ops (GpioGet pin l # evs) = GpioGet pin l # gpio_ops evs"
| "gpio_ops (_ # evs) = gpio_ops evs"

section \<open>Example machines\<close>

text \<open>
  A board with every pin wired but, possibly, HRDY; an environment given by the
  samples the HRDY pin returns and the bytes the bus returns. The register numbers
  are examples.
\<close>

definition ex_dev :: "pl_gpio_pin \<Rightarrow> s1d135xx" where
  "ex_dev hrdy_pin =
     \<lparr>data = \<lparr>reset = Pin 1, cs0 = Pin 2, hdc = Pin 3, hrdy = hrdy_pin\<rparr>,
      hrdy_mask = 0x2000, hrdy_result = 0x2000, power_state = PL_EPDC_RUN\<rparr>"

definition ex_env :: "(nat \<Rightarrow> c_int) \<Rightarrow> (nat \<Rightarrow> u8) \<Rightarrow> env" where
  "ex_env pin_samples rx =
     \<lparr>host = LittleEndian, REG_SOFTWARE_RESET = 0x0008, REG_SYSTEM_STATUS = 0x000A,
      REG_SEQ_AUTOBOOT_CMD = 0x02A8, gpio_in = (\<lambda>n pin. pin_samples n), spi_rx = rx,
      f_open_res = FR_OK, transfer_res = 0\<rparr>"

definition ex_sys :: "pl_gpio_pin \<Rightarrow> (nat \<Rightarrow> c_int) \<Rightarrow> (nat \<Rightarrow> u8) \<Rightarrow> sys" where
  "ex_sys hrdy_pin pin_samples rx =
     \<lparr>dev = ex_dev hrdy_pin, env = ex_env pin_samples rx, gpio_cnt = 0, rx_pos = 0, trace = []\<rparr>"

section \<open>Basic facts\<close>

lemmas cmd_defs =
  S1D135XX_CMD_INIT_SET_def S1D135XX_CMD_RUN_def S1D135XX_CMD_STBY_def
  S1D135XX_CMD_SLEEP_def S1D135XX_CMD_INIT_STBY_def S1D135XX_CMD_READ_REG_def
  S1D135XX_CMD_WRITE_REG_def S1D135XX_CMD_WAIT_DSPE_TRG_def
  S1D135XX_CMD_WAIT_DSPE_FREND_def S1D135XX_CMD_UPDATE_FULL_def
  S1D135XX_CMD_UPDATE_FULL_AREA_def S1D135XX_CMD_EPD_GDRV_CLR_def

subsection \<open>Byte order and framing\<close>

lemma hi_join16: "hi_byte (join16 a b) = a"
  unfolding hi_byte_def join16_def
  by (rule bit_word_eqI) (auto simp add: bit_simps dest: bit_imp_le_length)

lemma lo_join16: "lo_byte (join16 a b) = b"
  unfolding lo_byte_def join16_def
  by (rule bit_word_eqI) (auto simp add: bit_simps)

lemma join16_hi_lo: "join16 (hi_byte v) (lo_byte v) = v"
  unfolding hi_byte_def lo_byte_def join16_def
  by (rule bit_word_eqI) (auto simp add: bit_simps)

lemma swap_bytes_swap: "swap_bytes (swap_bytes v) = v"
  by (simp add: swap_bytes_def hi_join16 lo_join16 join16_hi_lo)

lemma bytes_of_htobe16: "bytes_of e (htobe16 e v) = [hi_byte v, lo_byte v]"
  by (cases e) (simp_all add: swap_bytes_def hi_join16 lo_join16)

lemma be16toh_of_bytes: "be16toh e (of_bytes e [b0, b1]) = join16 b0 b1"
  by (cases e) (simp_all add: swap_bytes_def hi_join16 lo_join16)

lemma spi_read_bytes_2:
  "spi_read_bytes 2 s =
     ([spi_rx (env s) (rx_pos s), spi_rx (env s) (rx_pos s + 1)],
      s\<lparr>rx_pos := rx_pos s + 2,
        trace := trace s @ [SpiRead [spi_rx (env s) (rx_pos s), spi_rx (env s) (rx_pos s + 1)]]\<rparr>)"
  by (simp add: spi_read_bytes_def emit_def numeral_2_eq_2 Let_def)

lemma send_cmd_eq: "send_cmd cmd s = s\<lparr>trace := trace s @ [SpiWrite [hi_byte cmd, lo_byte cmd]]\<rparr>"
  by (simp add: send_cmd_def spi_write_bytes_def emit_def bytes_of_htobe16)

lemma send_param_eq: "send_param v s = s\<lparr>trace := trace s @ [SpiWrite [hi_byte v, lo_byte v]]\<rparr>"
  by (simp add: send_param_def spi_write_bytes_def emit_def bytes_of_htobe16)

lemma send_params_eq:
  "send_params vs s = s\<lparr>trace := trace s @ map (\<lambda>v. SpiWrite [hi_byte v, lo_byte v]) vs\<rparr>"
  by (induction vs arbitrary: s) (simp_all add: send_param_eq)

lemma set_cs_eq: "set_cs l s = s\<lparr>trace := trace s @ [GpioSet (cs0 (data (dev s))) l]\<rparr>"
  by (simp add: set_cs_def gpio_set_def emit_def)

lemma read_reg_eq:
  "s1d135xx_read_reg reg s =
     (join16 (spi_rx (env s) (rx_pos s + 2)) (spi_rx (env s) (rx_pos s + 3)),
      s\<lparr>rx_pos := rx_pos s + 4,
        trace := trace s @
          [GpioSet (cs0 (data (dev s))) 0,
           SpiWrite [hi_byte S1D135XX_CMD_READ_REG, lo_byte S1D135XX_CMD_READ_REG],
           SpiWrite [hi_byte reg, lo_byte reg],
           SpiRead [spi_rx (env s) (rx_pos s), spi_rx (env s) (rx_pos s + 1)],
           SpiRead [spi_rx (env s) (rx_pos s + 2), spi_rx (env s) (rx_pos s + 3)],
           GpioSet (cs0 (data (dev s))) 1]\<rparr>)"
  apply (simp add: s1d135xx_read_reg_def set_cs_eq send_cmd_eq send_param_eq spi_read_bytes_2
      be16toh_of_bytes Let_def)
  apply (simp add: eval_nat_numeral)
  done

subsection \<open>The polling loop\<close>

lemma word_sub_of_nat_neq_0:
  fixes t :: "'a::len word"
  assumes "k < unat t"
  shows "t - of_nat k \<noteq> 0"
proof
  assume "t - of_nat k = 0"
  then have "t = of_nat k" by simp
  then have "unat t = k mod 2 ^ LENGTH('a)" by (simp add: unat_of_nat)
  also have "\<dots> \<le> k" by simp
  finally show False using assms by simp
qed

lemma wait_loop_ready:
  "k < unat t \<Longrightarrow> ready_at s k \<Longrightarrow> (\<forall>j<k. \<not> ready_at s j) \<Longrightarrow>
   wait_loop t s = (t - of_nat k, snd (get_hrdy (poll_state s k)))"
proof (induction k arbitrary: t s)
  case 0
  then show ?case
    by (subst wait_loop.simps) (simp add: ready_at_def Let_def case_prod_unfold)
next
  case (Suc k)
  let ?s' = "mdelay 1 (snd (get_hrdy s))"
  from Suc.prems(3) have not0: "fst (get_hrdy s) = 0"
    by (auto simp: ready_at_def dest: spec [of _ 0])
  from Suc.prems(1) have t2: "2 \<le> unat t" by simp
  then have tnz: "t \<noteq> 0" by (auto simp: unat_eq_0 [symmetric])
  then have u1: "unat (t - 1) = unat t - 1" by (rule unat_minus_one)
  with t2 have t1nz: "t - 1 \<noteq> 0" by (auto simp: unat_eq_0 [symmetric])
  have step: "wait_loop t s = wait_loop (t - 1) ?s'"
    using not0 t1nz by (subst wait_loop.simps) (simp add: Let_def case_prod_unfold)
  have a: "k < unat (t - 1)" using Suc.prems(1) u1 by simp
  have b: "ready_at ?s' k" using Suc.prems(2) by (simp add: ready_at_def)
  have c: "\<forall>j<k. \<not> ready_at ?s' j"
  proof (intro allI impI)
    fix j assume "j < k"
    then have "\<not> ready_at s (Suc j)" using Suc.prems(3) by simp
    then show "\<not> ready_at ?s' j" by (simp add: ready_at_def)
  qed
  from Suc.IH [OF a b c] step show ?case by simp
qed

lemma wait_loop_timeout:
  "unat t = Suc n \<Longrightarrow> (\<forall>k<Suc n. \<not> ready_at s k) \<Longrightarrow>
   wait_loop t s = (0, snd (get_hrdy (poll_state s n)))"
proof (induction n arbitrary: t s)
  case 0
  then have "t = 1" by (metis One_nat_def unat_1 word_unat_eq_iff)
  moreover from 0 have "fst (get_hrdy s) = 0" by (simp add: ready_at_def)
  ultimately show ?case
    by (subst wait_loop.simps) (simp add: Let_def case_prod_unfold)
next
  case (Suc n)
  let ?s' = "mdelay 1 (snd (get_hrdy s))"
  from Suc.prems(2) have not0: "fst (get_hrdy s) = 0"
    by (auto simp: ready_at_def dest: spec [of _ 0])
  from Suc.prems(1) have tnz: "t \<noteq> 0" by (auto simp: unat_eq_0 [symmetric])
  then have u1: "unat (t - 1) = Suc n" using Suc.prems(1) by (simp add: unat_minus_one)
  then have t1nz: "t - 1 \<noteq> 0" by (auto simp: unat_eq_0 [symmetric])
  have step: "wait_loop t s = wait_loop (t - 1) ?s'"
    using not0 t1nz by (subst wait_loop.simps) (simp add: Let_def case_prod_unfold)
  have c: "\<forall>k<Suc n. \<not> ready_at ?s' k"
  proof (intro allI impI)
    fix j assume "j < Suc n"
    then have "\<not> ready_at s (Suc j)" using Suc.prems(2) by simp
    then show "\<not> ready_at ?s' j" by (simp add: ready_at_def)
  qed
  from Suc.IH [OF u1 c] step show ?case by simp
qed

lemma wait_idle_ready:
  assumes "k < 3000" "ready_at s k" "\<forall>j<k. \<not> ready_at s j"
  shows "s1d135xx_wait_idle s = (0, snd (get_hrdy (poll_state s k)))"
proof -
  have k: "k < unat S1D135XX_HRDY_TIMEOUT" using assms(1) by (simp add: S1D135XX_HRDY_TIMEOUT_def)
  from wait_loop_ready [OF k assms(2,3)] word_sub_of_nat_neq_0 [OF k]
  show ?thesis by (simp add: s1d135xx_wait_idle_def)
qed

lemma wait_idle_timeout:
  assumes "\<forall>k<3000. \<not> ready_at s k"
  shows "s1d135xx_wait_idle s = (- 1, LOG ''HRDY timeout'' (snd (get_hrdy (poll_state s 2999))))"
proof -
  have u: "unat S1D135XX_HRDY_TIMEOUT = Suc 2999" by (simp add: S1D135XX_HRDY_TIMEOUT_def)
  have "\<forall>k<Suc 2999. \<not> ready_at s k" using assms by simp
  from wait_loop_timeout [OF u this] show ?thesis by (simp add: s1d135xx_wait_idle_def)
qed

subsection \<open>Chip-select windows\<close>

lemma cs_levels_append: "cs_levels c (xs @ ys) = cs_levels c xs @ cs_levels c ys"
  by (induction c xs rule: cs_levels.induct) simp_all

lemma bus_out_append: "bus_out (xs @ ys) = bus_out xs @ bus_out ys"
  by (induction xs rule: bus_out.induct) simp_all

lemma cs_framed_append: "cs_framed xs \<Longrightarrow> cs_framed ys \<Longrightarrow> cs_framed (xs @ ys)"
  by (induction xs rule: cs_framed.induct) simp_all

lemma cs_framed_count: "cs_framed ls \<Longrightarrow> count_list ls 0 = count_list ls 1"
  by (induction ls rule: cs_framed.induct) simp_all

lemma cs_framed_line: "cs_framed ls \<Longrightarrow> cs_line 1 ls = 1"
  by (induction ls rule: cs_framed.induct) simp_all

lemma emitted_append: "trace s' = trace s @ evs \<Longrightarrow> emitted s s' = evs"
  by (simp add: emitted_def)

lemma emitted_trans:
  assumes "prefix (trace a) (trace b)" "prefix (trace b) (trace c)"
  shows "emitted a c = emitted a b @ emitted b c"
proof -
  from assms obtain x y where "trace b = trace a @ x" "trace c = trace b @ y"
    by (auto simp: prefix_def)
  then show ?thesis by (simp add: emitted_def)
qed

lemma framed_run_refl: "framed_run s s"
  by (simp add: framed_run_def emitted_def)

lemma framed_run_trans:
  assumes "framed_run a b" "framed_run b c"
  shows "framed_run a c"
proof -
  from assms have p: "prefix (trace a) (trace b)" "prefix (trace b) (trace c)"
    by (simp_all add: framed_run_def)
  have "emitted a c = emitted a b @ emitted b c" using p by (rule emitted_trans)
  moreover from p have "prefix (trace a) (trace c)" by (rule prefix_order.trans)
  ultimately show ?thesis
    using assms by (simp add: framed_run_def cs_levels_append cs_framed_append)
qed

lemma framed_runI:
  assumes "dev s' = dev s" "env s' = env s" "trace s' = trace s @ evs"
    "cs_framed (cs_levels (cs0 (data (dev s))) evs)"
  shows "framed_run s s'"
  using assms by (simp add: framed_run_def emitted_def)

lemma framed_run_cs_closed: "framed_run s s' \<Longrightarrow> cs_closed s s'"
  by (simp add: framed_run_def cs_closed_def Let_def cs_framed_count cs_framed_line)

lemma mdelay_eq: "mdelay ms s = s\<lparr>trace := trace s @ [MDelay ms]\<rparr>"
  by (simp add: mdelay_def emit_def)

lemma LOG_eq: "LOG msg s = s\<lparr>trace := trace s @ [Log msg]\<rparr>"
  by (simp add: LOG_def emit_def)

lemma gpio_get_eq:
  "gpio_get pin s =
     (gpio_in (env s) (gpio_cnt s) pin,
      s\<lparr>gpio_cnt := Suc (gpio_cnt s),
        trace := trace s @ [GpioGet pin (gpio_in (env s) (gpio_cnt s) pin)]\<rparr>)"
  by (simp add: gpio_get_def emit_def Let_def)

lemma mdelay_framed: "framed_run s (mdelay ms s)"
  by (rule framed_runI [where evs = "[MDelay ms]"]) (simp_all add: mdelay_eq)

lemma LOG_framed: "framed_run s (LOG msg s)"
  by (rule framed_runI [where evs = "[Log msg]"]) (simp_all add: LOG_eq)

lemma read_reg_framed: "framed_run s (snd (s1d135xx_read_reg reg s))"
  by (simp add: read_reg_eq framed_run_def emitted_def)

lemma get_hrdy_framed: "framed_run s (snd (get_hrdy s))"
  by (simp add: get_hrdy_def gpio_get_eq read_reg_eq case_prod_unfold framed_run_def emitted_def)

lemma wait_loop_framed: "framed_run s (snd (wait_loop t s))"
proof (induction t s rule: wait_loop.induct)
  case (1 timeout s)
  let ?h = "get_hrdy s"
  have g: "framed_run s (snd ?h)" by (rule get_hrdy_framed)
  show ?case
  proof (cases "fst ?h \<noteq> 0 \<or> timeout - 1 = 0")
    case True
    then have "snd (wait_loop timeout s) = snd ?h"
      by (subst wait_loop.simps) (auto simp: Let_def case_prod_unfold)
    with g show ?thesis by simp
  next
    case False
    then have eq: "wait_loop timeout s = wait_loop (timeout - 1) (mdelay 1 (snd ?h))"
      by (subst wait_loop.simps) (simp add: Let_def case_prod_unfold)
    have "framed_run (mdelay 1 (snd ?h)) (snd (wait_loop (timeout - 1) (mdelay 1 (snd ?h))))"
      using False by (intro "1.IH" [of ?h "fst ?h" "snd ?h" "timeout - 1"]) (auto simp: prod_eq_iff)
    moreover have "framed_run (snd ?h) (mdelay 1 (snd ?h))" by (rule mdelay_framed)
    ultimately show ?thesis using g eq by (auto intro: framed_run_trans)
  qed
qed

lemma wait_idle_framed: "framed_run s (snd (s1d135xx_wait_idle s))"
proof -
  have "framed_run s (snd (wait_loop S1D135XX_HRDY_TIMEOUT s))" by (rule wait_loop_framed)
  moreover have "framed_run (snd (wait_loop S1D135XX_HRDY_TIMEOUT s))
      (LOG ''HRDY timeout'' (snd (wait_loop S1D135XX_HRDY_TIMEOUT s)))" by (rule LOG_framed)
  ultimately show ?thesis
    by (auto simp: s1d135xx_wait_idle_def case_prod_unfold Let_def intro: framed_run_trans)
qed

lemma silent_run_trans:
  assumes "silent_run a b" "silent_run b c"
  shows "silent_run a c"
proof -
  from assms have p: "prefix (trace a) (trace b)" "prefix (trace b) (trace c)"
    by (simp_all add: silent_run_def)
  have "emitted a c = emitted a b @ emitted b c" using p by (rule emitted_trans)
  moreover from p have "prefix (trace a) (trace c)" by (rule prefix_order.trans)
  ultimately show ?thesis using assms by (simp add: silent_run_def bus_out_append)
qed

lemma mdelay_silent: "silent_run s (mdelay ms s)"
  by (simp add: silent_run_def mdelay_eq emitted_def)

lemma LOG_silent: "silent_run s (LOG msg s)"
  by (simp add: silent_run_def LOG_eq emitted_def)

lemma get_hrdy_silent: "hrdy (data (dev s)) \<noteq> PL_GPIO_NONE \<Longrightarrow> silent_run s (snd (get_hrdy s))"
  by (simp add: get_hrdy_def gpio_get_eq silent_run_def emitted_def)

lemma wait_loop_silent:
  "hrdy (data (dev s)) \<noteq> PL_GPIO_NONE \<Longrightarrow> silent_run s (snd (wait_loop t s))"
proof (induction t s rule: wait_loop.induct)
  case (1 timeout s)
  let ?h = "get_hrdy s"
  have g: "silent_run s (snd ?h)" using "1.prems" by (rule get_hrdy_silent)
  show ?case
  proof (cases "fst ?h \<noteq> 0 \<or> timeout - 1 = 0")
    case True
    then have "snd (wait_loop timeout s) = snd ?h"
      by (subst wait_loop.simps) (auto simp: Let_def case_prod_unfold)
    with g show ?thesis by simp
  next
    case False
    then have eq: "wait_loop timeout s = wait_loop (timeout - 1) (mdelay 1 (snd ?h))"
      by (subst wait_loop.simps) (simp add: Let_def case_prod_unfold)
    have d: "silent_run (snd ?h) (mdelay 1 (snd ?h))" by (rule mdelay_silent)
    from g d have "hrdy (data (dev (mdelay 1 (snd ?h)))) \<noteq> PL_GPIO_NONE"
      using "1.prems" by (simp add: silent_run_def)
    with False have "silent_run (mdelay 1 (snd ?h)) (snd (wait_loop (timeout - 1) (mdelay 1 (snd ?h))))"
      by (intro "1.IH" [of ?h "fst ?h" "snd ?h" "timeout - 1"]) (auto simp: prod_eq_iff)
    with d g eq show ?thesis by (auto intro: silent_run_trans)
  qed
qed

lemma wait_idle_silent:
  assumes "hrdy (data (dev s)) \<noteq> PL_GPIO_NONE"
  shows "silent_run s (snd (s1d135xx_wait_idle s))"
proof -
  have "silent_run s (snd (wait_loop S1D135XX_HRDY_TIMEOUT s))"
    using assms by (rule wait_loop_silent)
  moreover have "silent_run (snd (wait_loop S1D135XX_HRDY_TIMEOUT s))
      (LOG ''HRDY timeout'' (snd (wait_loop S1D135XX_HRDY_TIMEOUT s)))" by (rule LOG_silent)
  ultimately show ?thesis
    by (auto simp: s1d135xx_wait_idle_def case_prod_unfold Let_def intro: silent_run_trans)
qed

subsection \<open>Words as numbers\<close>

lemma unat_hi_byte: "unat (hi_byte v) = unat v div 256"
proof -
  have "unat v < 2 ^ LENGTH(16)" by (rule unsigned_less)
  then have "unat v div 256 < 256" by simp
  then have b: "unat v div 256 < 256" by simp
  have a: "unat (drop_bit 8 v) = unat v div 256"
    unfolding unat_drop_bit_eq by (simp add: drop_bit_eq_div)
  show ?thesis
    unfolding hi_byte_def unsigned_ucast_eq a using b by (simp add: take_bit_eq_mod)
qed

lemma unat_lo_byte: "unat (lo_byte v) = unat v mod 256"
  by (simp add: lo_byte_def unsigned_ucast_eq take_bit_eq_mod)

lemma unat_join16: "unat (join16 a b) = 256 * unat a + unat b"
proof -
  have "unat (hi_byte (join16 a b)) = unat (join16 a b) div 256"
       "unat (lo_byte (join16 a b)) = unat (join16 a b) mod 256"
    by (rule unat_hi_byte, rule unat_lo_byte)
  then have "unat a = unat (join16 a b) div 256" "unat b = unat (join16 a b) mod 256"
    by (simp_all add: hi_join16 lo_join16)
  then show ?thesis by simp
qed

subsection \<open>The waveform mode word\<close>

lemma WF_MODE_low4: "S1D135XX_WF_MODE wfid = push_bit 8 (wfid AND 0xF)"
proof -
  have "(0x0F00 :: 16 word) = push_bit 8 (mask 4)" "(0xF :: 16 word) = mask 4"
    by (simp_all add: mask_eq_exp_minus_1)
  then show ?thesis by (simp add: S1D135XX_WF_MODE_def push_bit_and)
qed

lemma WF_MODE_low_byte: "S1D135XX_WF_MODE wfid AND 0xFF = 0"
proof -
  have "(0xFF :: 16 word) = mask 8" by (simp add: mask_eq_exp_minus_1)
  then have "push_bit 8 (wfid AND 0xF) AND (0xFF :: 16 word) = take_bit 8 (push_bit 8 (wfid AND 0xF))"
    by (simp add: take_bit_eq_mask)
  also have "\<dots> = 0" by (simp add: take_bit_push_bit)
  finally show ?thesis by (simp add: WF_MODE_low4)
qed

lemma take_bit_4_plus_16: "take_bit 4 (w + 16) = take_bit 4 (w :: 16 word)"
  by transfer (simp add: take_bit_eq_mod)

lemma WF_MODE_plus_16: "S1D135XX_WF_MODE (wfid + 16) = S1D135XX_WF_MODE wfid"
proof -
  have m: "(0xF :: 16 word) = mask 4" by (simp add: mask_eq_exp_minus_1)
  have "(wfid + 16) AND 0xF = wfid AND 0xF"
    unfolding m using take_bit_4_plus_16 [of wfid] by (simp add: take_bit_eq_mask)
  then show ?thesis by (simp add: WF_MODE_low4)
qed

section \<open>Bus framing\<close>

text \<open>
  C8: every 16-bit command or parameter word goes on the wire as exactly two bytes,
  the most significant byte first, whatever the byte order of the host
  (\<open>send_cmd\<close> and \<open>send_param\<close> write \<open>wire16 v\<close> in every machine state, and the
  two bytes are \<open>v div 256\<close> and \<open>v mod 256\<close>); reading the bytes back the way
  \<open>s1d135xx_read_reg\<close> does (into a \<open>uint16_t\<close>, then \<open>be16toh\<close>) recovers the
  word.
\<close>

theorem wire_encoding_roundtrip:
  "emitted s (send_cmd v s) = [SpiWrite (wire16 v)] \<and>
   emitted s (send_param v s) = [SpiWrite (wire16 v)] \<and>
   bytes_of e (htobe16 e v) = wire16 v \<and>
   map unat (wire16 v) = [unat v div 256, unat v mod 256] \<and>
   be16toh e (of_bytes e (bytes_of e (htobe16 e v))) = v"
  by (simp add: send_cmd_eq send_param_eq emitted_def wire16_def bytes_of_htobe16
      be16toh_of_bytes join16_hi_lo unat_hi_byte unat_lo_byte)

section \<open>Ready-signal poll\<close>

subsection \<open>Readiness checks\<close>

lemmas ex_defs = ex_dev_def ex_env_def ex_sys_def

lemma get_hrdy_pin:
  "hrdy (data (dev s)) \<noteq> PL_GPIO_NONE \<Longrightarrow>
   get_hrdy s = gpio_get (hrdy (data (dev s))) s"
  by (simp add: get_hrdy_def)

lemma get_hrdy_reg:
  "hrdy (data (dev s)) = PL_GPIO_NONE \<Longrightarrow>
   get_hrdy s =
     (if fst (s1d135xx_read_reg (REG_SYSTEM_STATUS (env s)) s) AND hrdy_mask (dev s) = hrdy_result (dev s)
      then 1 else 0,
      snd (s1d135xx_read_reg (REG_SYSTEM_STATUS (env s)) s))"
  by (simp add: get_hrdy_def case_prod_unfold read_reg_eq)

lemma framed_run_dev: "framed_run s s' \<Longrightarrow> dev s' = dev s"
  by (simp add: framed_run_def)

lemma framed_run_env: "framed_run s s' \<Longrightarrow> env s' = env s"
  by (simp add: framed_run_def)

lemma poll_state_framed: "framed_run s (poll_state s k)"
proof (induction k arbitrary: s)
  case 0
  show ?case by (simp add: framed_run_refl)
next
  case (Suc k)
  have "framed_run s (mdelay 1 (snd (get_hrdy s)))"
    using get_hrdy_framed mdelay_framed by (rule framed_run_trans)
  then show ?case using Suc.IH by (auto intro: framed_run_trans)
qed

lemma poll_state_dev: "dev (poll_state s k) = dev s"
  using poll_state_framed [of s k] by (simp add: framed_run_def)

lemma poll_state_env: "env (poll_state s k) = env s"
  using poll_state_framed [of s k] by (simp add: framed_run_def)

lemma poll_state_gpio_cnt:
  "hrdy (data (dev s)) \<noteq> PL_GPIO_NONE \<Longrightarrow> gpio_cnt (poll_state s k) = gpio_cnt s + k"
  by (induction k arbitrary: s) (simp_all add: get_hrdy_pin gpio_get_eq mdelay_eq)

lemma poll_state_rx_pos:
  "hrdy (data (dev s)) = PL_GPIO_NONE \<Longrightarrow> rx_pos (poll_state s k) = rx_pos s + 4 * k"
  by (induction k arbitrary: s) (simp_all add: get_hrdy_reg read_reg_eq mdelay_eq)

lemma ready_at_pin:
  assumes "hrdy (data (dev s)) \<noteq> PL_GPIO_NONE"
  shows "ready_at s k = (gpio_in (env s) (gpio_cnt s + k) (hrdy (data (dev s))) \<noteq> 0)"
proof -
  have "dev (poll_state s k) = dev s" "env (poll_state s k) = env s"
    using poll_state_framed [of s k] by (simp_all add: framed_run_def)
  then show ?thesis
    using assms by (simp add: ready_at_def get_hrdy_pin gpio_get_eq poll_state_gpio_cnt)
qed

lemma ready_at_reg:
  assumes "hrdy (data (dev s)) = PL_GPIO_NONE"
  shows "ready_at s k =
     (join16 (spi_rx (env s) (rx_pos s + 4 * k + 2)) (spi_rx (env s) (rx_pos s + 4 * k + 3))
        AND hrdy_mask (dev s) = hrdy_result (dev s))"
proof -
  have "dev (poll_state s k) = dev s" "env (poll_state s k) = env s"
    using poll_state_framed [of s k] by (simp_all add: framed_run_def)
  then show ?thesis
    using assms by (simp add: ready_at_def get_hrdy_reg read_reg_eq poll_state_rx_pos)
qed

text \<open>
  C1: a readiness check reads the HRDY pin when one is configured and otherwise tests
  \<open>(status & mask) == expected\<close> on the status register. \<open>s1d135xx_wait_idle\<close>
  returns 0 at the first check that finds the chip ready, among the first 3000
  checks (1 ms apart): at once, with no delay, when that is the first check. When
  none of the 3000 checks finds it ready, it logs the timeout and returns -1.
\<close>

theorem wait_idle_outcome:
  "(hrdy (data (dev s)) \<noteq> PL_GPIO_NONE \<longrightarrow>
      ready_at s k = (gpio_in (env s) (gpio_cnt s + k) (hrdy (data (dev s))) \<noteq> 0)) \<and>
   (hrdy (data (dev s)) = PL_GPIO_NONE \<longrightarrow>
      ready_at s k =
        (fst (s1d135xx_read_reg (REG_SYSTEM_STATUS (env s)) (poll_state s k))
           AND hrdy_mask (dev s) = hrdy_result (dev s))) \<and>
   (ready_at s 0 \<longrightarrow> s1d135xx_wait_idle s = (0, snd (get_hrdy s))) \<and>
   (k < 3000 \<and> ready_at s k \<and> (\<forall>j<k. \<not> ready_at s j) \<longrightarrow>
      s1d135xx_wait_idle s = (0, snd (get_hrdy (poll_state s k)))) \<and>
   ((\<forall>j<3000. \<not> ready_at s j) \<longrightarrow>
      s1d135xx_wait_idle s =
        (- 1, LOG ''HRDY timeout'' (snd (get_hrdy (poll_state s 2999)))))"
proof (intro conjI impI)
  assume "hrdy (data (dev s)) \<noteq> PL_GPIO_NONE"
  then show "ready_at s k = (gpio_in (env s) (gpio_cnt s + k) (hrdy (data (dev s))) \<noteq> 0)"
    by (rule ready_at_pin)
next
  assume a: "hrdy (data (dev s)) = PL_GPIO_NONE"
  then show "ready_at s k =
        (fst (s1d135xx_read_reg (REG_SYSTEM_STATUS (env s)) (poll_state s k))
           AND hrdy_mask (dev s) = hrdy_result (dev s))"
    by (simp add: ready_at_reg read_reg_eq poll_state_rx_pos poll_state_env add.assoc)
next
  assume "ready_at s 0"
  then show "s1d135xx_wait_idle s = (0, snd (get_hrdy s))"
    using wait_idle_ready [of 0 s] by simp
next
  assume "k < 3000 \<and> ready_at s k \<and> (\<forall>j<k. \<not> ready_at s j)"
  then show "s1d135xx_wait_idle s = (0, snd (get_hrdy (poll_state s k)))"
    using wait_idle_ready [of k s] by simp
next
  assume "\<forall>j<3000. \<not> ready_at s j"
  then show "s1d135xx_wait_idle s =
        (- 1, LOG ''HRDY timeout'' (snd (get_hrdy (poll_state s 2999))))"
    by (rule wait_idle_timeout)
qed

theorem wait_idle_outcome_witness:
  "s1d135xx_wait_idle (ex_sys (Pin 4) (\<lambda>n. if n = 2 then 1 else 0) (\<lambda>n. 0)) =
     (0, snd (get_hrdy (poll_state (ex_sys (Pin 4) (\<lambda>n. if n = 2 then 1 else 0) (\<lambda>n. 0)) 2))) \<and>
   s1d135xx_wait_idle (ex_sys (Pin 4) (\<lambda>n. 1) (\<lambda>n. 0)) =
     (0, snd (get_hrdy (ex_sys (Pin 4) (\<lambda>n. 1) (\<lambda>n. 0)))) \<and>
   fst (s1d135xx_wait_idle (ex_sys (Pin 4) (\<lambda>n. 0) (\<lambda>n. 0))) = - 1 \<and>
   ready_at (ex_sys PL_GPIO_NONE (\<lambda>n. 0) (\<lambda>n. 0x20)) 0"
proof -
  let ?late = "ex_sys (Pin 4) (\<lambda>n. if n = 2 then 1 else 0) (\<lambda>n. 0)"
  let ?now = "ex_sys (Pin 4) (\<lambda>n. 1) (\<lambda>n. 0)"
  let ?never = "ex_sys (Pin 4) (\<lambda>n. 0) (\<lambda>n. 0)"
  let ?reg = "ex_sys PL_GPIO_NONE (\<lambda>n. 0) (\<lambda>n. 0x20)"
  have pin: "hrdy (data (dev ?late)) \<noteq> PL_GPIO_NONE" "hrdy (data (dev ?now)) \<noteq> PL_GPIO_NONE"
    "hrdy (data (dev ?never)) \<noteq> PL_GPIO_NONE"
    by (simp_all add: ex_defs)
  have l: "(2::nat) < 3000 \<and> ready_at ?late 2 \<and> (\<forall>j<2. \<not> ready_at ?late j)"
    by (simp add: ready_at_pin pin) (simp add: ex_defs)
  have n: "ready_at ?now 0" by (simp add: ready_at_pin pin) (simp add: ex_defs)
  have t: "\<forall>j<3000. \<not> ready_at ?never j"
    by (simp add: ready_at_pin pin) (simp add: ex_defs)
  have r: "hrdy (data (dev ?reg)) = PL_GPIO_NONE" by (simp add: ex_defs)
  have "fst (s1d135xx_read_reg (REG_SYSTEM_STATUS (env ?reg)) (poll_state ?reg 0))
           AND hrdy_mask (dev ?reg) = hrdy_result (dev ?reg)"
    by (simp add: read_reg_eq) (simp add: ex_defs join16_def)
  with r have rr: "ready_at ?reg 0" using wait_idle_outcome [of ?reg 0] by simp
  from l n t rr wait_idle_outcome [of ?late 2] wait_idle_outcome [of ?now 0]
    wait_idle_outcome [of ?never 0]
  show ?thesis by simp
qed

lemma gpio_set_eq: "gpio_set pin l s = s\<lparr>trace := trace s @ [GpioSet pin l]\<rparr>"
  by (simp add: gpio_set_def emit_def)

section \<open>Register access\<close>

text \<open>
  C6: \<open>s1d135xx_read_reg\<close> opens a chip-select window, sends \<open>READ_REG\<close> (0x10)
  and the register number as its parameter, reads two 16-bit words from the
  transport and closes the window. The first word read is dropped; the result is
  the second one, its first byte being the most significant.
\<close>

theorem read_reg_two_reads:
  "s1d135xx_read_reg reg s =
     (let rx = (\<lambda>i. spi_rx (env s) (rx_pos s + i))
      in (join16 (rx 2) (rx 3),
          s\<lparr>rx_pos := rx_pos s + 4,
            trace := trace s @
              [GpioSet (cs0 (data (dev s))) 0,
               SpiWrite (wire16 S1D135XX_CMD_READ_REG),
               SpiWrite (wire16 reg),
               SpiRead [rx 0, rx 1],
               SpiRead [rx 2, rx 3],
               GpioSet (cs0 (data (dev s))) 1]\<rparr>)) \<and>
   wire16 S1D135XX_CMD_READ_REG = [0x00, 0x10] \<and>
   unat (join16 b0 b1) = 256 * unat b0 + unat b1"
  by (simp add: read_reg_eq wire16_def Let_def unat_join16)
    (simp add: S1D135XX_CMD_READ_REG_def hi_byte_def lo_byte_def)

section \<open>Power state machine: hard reset\<close>

text \<open>
  C7: without a reset pin (\<open>PL_GPIO_NONE\<close>) \<open>s1d135xx_hard_reset\<close> only logs a
  warning and returns; it performs no GPIO operation. With a reset pin it drives
  the pin low, waits 4 ms, drives it high, waits 10 ms, and returns without any
  readiness check.
\<close>

theorem hard_reset_sequence:
  "(reset (data (dev s)) = PL_GPIO_NONE \<longrightarrow>
      s1d135xx_hard_reset s = s\<lparr>trace := trace s @ [Log ''Warning: no hard reset'']\<rparr> \<and>
      gpio_ops (emitted s (s1d135xx_hard_reset s)) = []) \<and>
   (reset (data (dev s)) \<noteq> PL_GPIO_NONE \<longrightarrow>
      s1d135xx_hard_reset s =
        s\<lparr>trace := trace s @
          [GpioSet (reset (data (dev s))) 0, MDelay 4,
           GpioSet (reset (data (dev s))) 1, MDelay 10]\<rparr>)"
  by (simp add: s1d135xx_hard_reset_def LOG_eq gpio_set_eq mdelay_eq emitted_def Let_def)

theorem hard_reset_sequence_witness:
  "s1d135xx_hard_reset (ex_sys (Pin 4) (\<lambda>n. 1) (\<lambda>n. 0)) =
     (ex_sys (Pin 4) (\<lambda>n. 1) (\<lambda>n. 0))
       \<lparr>trace := [GpioSet (Pin 1) 0, MDelay 4, GpioSet (Pin 1) 1, MDelay 10]\<rparr> \<and>
   s1d135xx_hard_reset
     ((ex_sys (Pin 4) (\<lambda>n. 1) (\<lambda>n. 0))\<lparr>dev := (ex_dev (Pin 4))\<lparr>data := \<lparr>reset = PL_GPIO_NONE, cs0 = Pin 2, hdc = Pin 3, hrdy = Pin 4\<rparr>\<rparr>\<rparr>) =
     (ex_sys (Pin 4) (\<lambda>n. 1) (\<lambda>n. 0))
       \<lparr>dev := (ex_dev (Pin 4))\<lparr>data := \<lparr>reset = PL_GPIO_NONE, cs0 = Pin 2, hdc = Pin 3, hrdy = Pin 4\<rparr>\<rparr>,
        trace := [Log ''Warning: no hard reset'']\<rparr>"
  using hard_reset_sequence [of "ex_sys (Pin 4) (\<lambda>n. 1) (\<lambda>n. 0)"]
    hard_reset_sequence [of "(ex_sys (Pin 4) (\<lambda>n. 1) (\<lambda>n. 0))\<lparr>dev := (ex_dev (Pin 4))\<lparr>data := \<lparr>reset = PL_GPIO_NONE, cs0 = Pin 2, hdc = Pin 3, hrdy = Pin 4\<rparr>\<rparr>\<rparr>"]
  by (simp add: ex_sys_def ex_dev_def)

section \<open>Update sequencer\<close>

subsection \<open>The frames of the update commands\<close>

lemma update_eq:
  "s1d135xx_update wfid s =
     (let s1 = s\<lparr>trace := trace s @
                 [GpioSet (cs0 (data (dev s))) 0,
                  SpiWrite (wire16 S1D135XX_CMD_UPDATE_FULL),
                  SpiWrite (wire16 (S1D135XX_WF_MODE wfid)),
                  GpioSet (cs0 (data (dev s))) 1]\<rparr>
      in if fst (s1d135xx_wait_idle s1) \<noteq> 0 then (- 1, snd (s1d135xx_wait_idle s1))
         else s1d135xx_wait_dspe_trig (snd (s1d135xx_wait_idle s1)))"
  by (simp add: s1d135xx_update_def set_cs_eq send_cmd_eq send_param_eq wire16_def Let_def
      case_prod_unfold)

lemma update_area_eq:
  "s1d135xx_update_area wfid area s =
     (let s1 = s\<lparr>trace := trace s @
                 [GpioSet (cs0 (data (dev s))) 0,
                  SpiWrite (wire16 S1D135XX_CMD_UPDATE_FULL_AREA),
                  SpiWrite (wire16 (S1D135XX_WF_MODE wfid)),
                  SpiWrite (wire16 (left area AND 0x1FF)),
                  SpiWrite (wire16 (top_y area AND 0x3FF)),
                  SpiWrite (wire16 (width area AND 0x1FF)),
                  SpiWrite (wire16 (height area AND 0x3FF)),
                  GpioSet (cs0 (data (dev s))) 1]\<rparr>
      in if fst (s1d135xx_wait_idle s1) \<noteq> 0 then (- 1, snd (s1d135xx_wait_idle s1))
         else s1d135xx_wait_dspe_trig (snd (s1d135xx_wait_idle s1)))"
  by (simp add: s1d135xx_update_area_def set_cs_eq send_cmd_eq send_params_eq wire16_def Let_def
      case_prod_unfold S1D135XX_XMASK_def S1D135XX_YMASK_def)

lemma wait_dspe_trig_eq:
  "s1d135xx_wait_dspe_trig s =
     s1d135xx_wait_idle (s\<lparr>trace := trace s @
        [GpioSet (cs0 (data (dev s))) 0, SpiWrite (wire16 S1D135XX_CMD_WAIT_DSPE_TRG),
         GpioSet (cs0 (data (dev s))) 1]\<rparr>)"
  by (simp add: s1d135xx_wait_dspe_trig_def set_cs_eq send_cmd_eq wire16_def Let_def)

lemma wait_update_end_eq:
  "s1d135xx_wait_update_end s =
     s1d135xx_wait_idle (s\<lparr>trace := trace s @
        [GpioSet (cs0 (data (dev s))) 0, SpiWrite (wire16 S1D135XX_CMD_WAIT_DSPE_FREND),
         GpioSet (cs0 (data (dev s))) 1]\<rparr>)"
  by (simp add: s1d135xx_wait_update_end_def set_cs_eq send_cmd_eq wire16_def Let_def)

lemma framed_run_prefix: "framed_run s s' \<Longrightarrow> prefix (trace s) (trace s')"
  by (simp add: framed_run_def)

lemma wait_idle_prefix: "prefix (trace s) (trace (snd (s1d135xx_wait_idle s)))"
  using wait_idle_framed [of s] by (simp add: framed_run_def)

lemma wait_dspe_trig_prefix: "prefix (trace s) (trace (snd (s1d135xx_wait_dspe_trig s)))"
proof -
  let ?s1 = "s\<lparr>trace := trace s @
        [GpioSet (cs0 (data (dev s))) 0, SpiWrite (wire16 S1D135XX_CMD_WAIT_DSPE_TRG),
         GpioSet (cs0 (data (dev s))) 1]\<rparr>"
  have "prefix (trace s) (trace ?s1)" by simp
  also have "prefix (trace ?s1) (trace (snd (s1d135xx_wait_idle ?s1)))" by (rule wait_idle_prefix)
  finally show ?thesis by (simp add: wait_dspe_trig_eq)
qed

lemma emitted_starts:
  assumes "prefix (trace s @ F) (trace s')" "length F = n"
  shows "take n (emitted s s') = F"
proof -
  from assms obtain r where "trace s' = trace s @ F @ r" by (auto simp: prefix_def)
  then show ?thesis using assms(2) by (simp add: emitted_def)
qed

lemma update_starts:
  "prefix (trace s @
        [GpioSet (cs0 (data (dev s))) 0,
         SpiWrite (wire16 S1D135XX_CMD_UPDATE_FULL),
         SpiWrite (wire16 (S1D135XX_WF_MODE wfid)),
         GpioSet (cs0 (data (dev s))) 1])
     (trace (snd (s1d135xx_update wfid s)))"
proof -
  let ?s1 = "s\<lparr>trace := trace s @
                 [GpioSet (cs0 (data (dev s))) 0,
                  SpiWrite (wire16 S1D135XX_CMD_UPDATE_FULL),
                  SpiWrite (wire16 (S1D135XX_WF_MODE wfid)),
                  GpioSet (cs0 (data (dev s))) 1]\<rparr>"
  let ?s2 = "snd (s1d135xx_wait_idle ?s1)"
  have a: "prefix (trace ?s1) (trace ?s2)" by (rule wait_idle_prefix)
  have b: "prefix (trace ?s2) (trace (snd (s1d135xx_wait_dspe_trig ?s2)))"
    by (rule wait_dspe_trig_prefix)
  from a b have c: "prefix (trace ?s1) (trace (snd (s1d135xx_wait_dspe_trig ?s2)))"
    by (rule prefix_order.trans)
  have "prefix (trace ?s1) (trace (snd (s1d135xx_update wfid s)))"
    using a c by (simp add: update_eq Let_def)
  then show ?thesis by simp
qed

lemma update_area_starts:
  "prefix (trace s @
        [GpioSet (cs0 (data (dev s))) 0,
         SpiWrite (wire16 S1D135XX_CMD_UPDATE_FULL_AREA),
         SpiWrite (wire16 (S1D135XX_WF_MODE wfid)),
         SpiWrite (wire16 (left area AND 0x1FF)),
         SpiWrite (wire16 (top_y area AND 0x3FF)),
         SpiWrite (wire16 (width area AND 0x1FF)),
         SpiWrite (wire16 (height area AND 0x3FF)),
         GpioSet (cs0 (data (dev s))) 1])
     (trace (snd (s1d135xx_update_area wfid area s)))"
proof -
  let ?s1 = "s\<lparr>trace := trace s @
        [GpioSet (cs0 (data (dev s))) 0,
         SpiWrite (wire16 S1D135XX_CMD_UPDATE_FULL_AREA),
         SpiWrite (wire16 (S1D135XX_WF_MODE wfid)),
         SpiWrite (wire16 (left area AND 0x1FF)),
         SpiWrite (wire16 (top_y area AND 0x3FF)),
         SpiWrite (wire16 (width area AND 0x1FF)),
         SpiWrite (wire16 (height area AND 0x3FF)),
         GpioSet (cs0 (data (dev s))) 1]\<rparr>"
  let ?s2 = "snd (s1d135xx_wait_idle ?s1)"
  have a: "prefix (trace ?s1) (trace ?s2)" by (rule wait_idle_prefix)
  have b: "prefix (trace ?s2) (trace (snd (s1d135xx_wait_dspe_trig ?s2)))"
    by (rule wait_dspe_trig_prefix)
  from a b have c: "prefix (trace ?s1) (trace (snd (s1d135xx_wait_dspe_trig ?s2)))"
    by (rule prefix_order.trans)
  have "prefix (trace ?s1) (trace (snd (s1d135xx_update_area wfid area s)))"
    using a c by (simp add: update_area_eq Let_def)
  then show ?thesis by simp
qed

text \<open>
  C2: \<open>s1d135xx_update_area\<close> opens a chip-select window, sends
  \<open>UPDATE_FULL_AREA\<close> and exactly five parameter words, the waveform mode word,
  left masked with 0x1FF, top with 0x3FF, width with 0x1FF and height with 0x3FF,
  and closes the window, for every waveform id and every area: nothing is
  rejected. With waveform id 2 and the area (1000, 10, 50, 60) the five words are
  0x0200, 488, 10, 50, 60.
\<close>

theorem update_area_parameters:
  "take 8 (emitted s (snd (s1d135xx_update_area wfid area s))) =
     [GpioSet (cs0 (data (dev s))) 0,
      SpiWrite (wire16 S1D135XX_CMD_UPDATE_FULL_AREA),
      SpiWrite (wire16 (S1D135XX_WF_MODE wfid)),
      SpiWrite (wire16 (left area AND 0x1FF)),
      SpiWrite (wire16 (top_y area AND 0x3FF)),
      SpiWrite (wire16 (width area AND 0x1FF)),
      SpiWrite (wire16 (height area AND 0x3FF)),
      GpioSet (cs0 (data (dev s))) 1] \<and>
   take 8 (emitted s (snd (s1d135xx_update_area 2
       \<lparr>left = 1000, top_y = 10, width = 50, height = 60\<rparr> s))) =
     [GpioSet (cs0 (data (dev s))) 0,
      SpiWrite (wire16 0x34),
      SpiWrite (wire16 0x0200),
      SpiWrite (wire16 488),
      SpiWrite (wire16 10),
      SpiWrite (wire16 50),
      SpiWrite (wire16 60),
      GpioSet (cs0 (data (dev s))) 1]"
proof -
  have g: "take 8 (emitted s (snd (s1d135xx_update_area w a s))) =
     [GpioSet (cs0 (data (dev s))) 0,
      SpiWrite (wire16 S1D135XX_CMD_UPDATE_FULL_AREA),
      SpiWrite (wire16 (S1D135XX_WF_MODE w)),
      SpiWrite (wire16 (left a AND 0x1FF)),
      SpiWrite (wire16 (top_y a AND 0x3FF)),
      SpiWrite (wire16 (width a AND 0x1FF)),
      SpiWrite (wire16 (height a AND 0x3FF)),
      GpioSet (cs0 (data (dev s))) 1]" for w a
    by (rule emitted_starts [OF update_area_starts [of s w a]]) simp
  show ?thesis
    using g [of wfid area] g [of 2 "\<lparr>left = 1000, top_y = 10, width = 50, height = 60\<rparr>"]
    by (simp add: S1D135XX_WF_MODE_def S1D135XX_CMD_UPDATE_FULL_AREA_def)
qed

text \<open>
  C10: the waveform mode word sent by \<open>s1d135xx_update\<close> and
  \<open>s1d135xx_update_area\<close> is \<open>(wfid << 8) & 0x0F00\<close>: its low byte is zero, only
  the low four bits of the waveform id count, and the waveform ids \<open>wfid\<close> and
  \<open>wfid + 16\<close> give the same word and the same run.
\<close>

theorem waveform_mode_word:
  "S1D135XX_WF_MODE wfid = push_bit 8 wfid AND 0x0F00 \<and>
   S1D135XX_WF_MODE wfid AND 0x00FF = 0 \<and>
   S1D135XX_WF_MODE wfid = push_bit 8 (wfid AND 0x000F) \<and>
   S1D135XX_WF_MODE (wfid + 16) = S1D135XX_WF_MODE wfid \<and>
   take 4 (emitted s (snd (s1d135xx_update wfid s))) =
     [GpioSet (cs0 (data (dev s))) 0,
      SpiWrite (wire16 S1D135XX_CMD_UPDATE_FULL),
      SpiWrite (wire16 (S1D135XX_WF_MODE wfid)),
      GpioSet (cs0 (data (dev s))) 1] \<and>
   take 3 (emitted s (snd (s1d135xx_update_area wfid area s))) =
     [GpioSet (cs0 (data (dev s))) 0,
      SpiWrite (wire16 S1D135XX_CMD_UPDATE_FULL_AREA),
      SpiWrite (wire16 (S1D135XX_WF_MODE wfid))] \<and>
   s1d135xx_update (wfid + 16) s = s1d135xx_update wfid s \<and>
   s1d135xx_update_area (wfid + 16) area s = s1d135xx_update_area wfid area s"
proof -
  have a: "take 4 (emitted s (snd (s1d135xx_update wfid s))) =
     [GpioSet (cs0 (data (dev s))) 0,
      SpiWrite (wire16 S1D135XX_CMD_UPDATE_FULL),
      SpiWrite (wire16 (S1D135XX_WF_MODE wfid)),
      GpioSet (cs0 (data (dev s))) 1]"
    by (rule emitted_starts [OF update_starts [of s wfid]]) simp
  have e8: "take 8 (emitted s (snd (s1d135xx_update_area wfid area s))) =
     [GpioSet (cs0 (data (dev s))) 0,
      SpiWrite (wire16 S1D135XX_CMD_UPDATE_FULL_AREA),
      SpiWrite (wire16 (S1D135XX_WF_MODE wfid)),
      SpiWrite (wire16 (left area AND 0x1FF)),
      SpiWrite (wire16 (top_y area AND 0x3FF)),
      SpiWrite (wire16 (width area AND 0x1FF)),
      SpiWrite (wire16 (height area AND 0x3FF)),
      GpioSet (cs0 (data (dev s))) 1]"
    by (rule emitted_starts [OF update_area_starts [of s wfid area]]) simp
  have "take 3 (take 8 (emitted s (snd (s1d135xx_update_area wfid area s)))) =
     [GpioSet (cs0 (data (dev s))) 0,
      SpiWrite (wire16 S1D135XX_CMD_UPDATE_FULL_AREA),
      SpiWrite (wire16 (S1D135XX_WF_MODE wfid))]"
    unfolding e8 by simp
  then have b: "take 3 (emitted s (snd (s1d135xx_update_area wfid area s))) =
     [GpioSet (cs0 (data (dev s))) 0,
      SpiWrite (wire16 S1D135XX_CMD_UPDATE_FULL_AREA),
      SpiWrite (wire16 (S1D135XX_WF_MODE wfid))]"
    by simp
  have c: "s1d135xx_update (wfid + 16) s = s1d135xx_update wfid s"
    by (simp add: update_eq WF_MODE_plus_16)
  have d: "s1d135xx_update_area (wfid + 16) area s = s1d135xx_update_area wfid area s"
    by (simp add: update_area_eq WF_MODE_plus_16)
  show ?thesis
    using a b c d WF_MODE_low_byte [of wfid] WF_MODE_low4 [of wfid] WF_MODE_plus_16 [of wfid]
    by (simp add: S1D135XX_WF_MODE_def)
qed

section \<open>Chip-select windows of the public functions\<close>

lemma wait_idle_dev: "dev (snd (s1d135xx_wait_idle s)) = dev s"
  using wait_idle_framed [of s] by (simp add: framed_run_def)

lemma wait_idle_env: "env (snd (s1d135xx_wait_idle s)) = env s"
  using wait_idle_framed [of s] by (simp add: framed_run_def)

lemma cs_levels_writes: "cs_levels c (map (\<lambda>v. SpiWrite (f v)) vs) = []"
  by (induction vs) simp_all

lemma framed_frame:
  "cs_framed (cs_levels (cs0 (data (dev s))) F) \<Longrightarrow> framed_run s (s\<lparr>trace := trace s @ F\<rparr>)"
  by (rule framed_runI [where evs = F]) simp_all

lemma framed_then_wait_idle:
  assumes "framed_run s s1"
  shows "framed_run s (snd (s1d135xx_wait_idle s1))"
  using assms wait_idle_framed by (rule framed_run_trans)

lemma hard_reset_framed: "framed_run s (s1d135xx_hard_reset s)"
  by (rule framed_runI [where evs = "emitted s (s1d135xx_hard_reset s)"])
    (simp_all add: s1d135xx_hard_reset_def LOG_eq gpio_set_eq mdelay_eq emitted_def Let_def)

lemma write_reg_eq:
  "s1d135xx_write_reg reg val s =
     s\<lparr>trace := trace s @
        [GpioSet (cs0 (data (dev s))) 0, SpiWrite (wire16 S1D135XX_CMD_WRITE_REG),
         SpiWrite (wire16 reg), SpiWrite (wire16 val), GpioSet (cs0 (data (dev s))) 1]\<rparr>"
  by (simp add: s1d135xx_write_reg_def set_cs_eq send_cmd_eq send_params_eq wire16_def Let_def)

lemma cmd_eq:
  "s1d135xx_cmd cmd params s =
     s\<lparr>trace := trace s @
        GpioSet (cs0 (data (dev s))) 0 # SpiWrite (wire16 cmd) #
        map (\<lambda>v. SpiWrite (wire16 v)) params @ [GpioSet (cs0 (data (dev s))) 1]\<rparr>"
  by (simp add: s1d135xx_cmd_def set_cs_eq send_cmd_eq send_params_eq wire16_def Let_def)

lemma write_reg_framed: "framed_run s (s1d135xx_write_reg reg val s)"
  unfolding write_reg_eq by (rule framed_frame) simp

lemma cmd_framed: "framed_run s (s1d135xx_cmd cmd params s)"
  unfolding cmd_eq by (rule framed_frame) (simp add: cs_levels_append cs_levels_writes)

lemma soft_reset_framed: "framed_run s (snd (s1d135xx_soft_reset s))"
  unfolding s1d135xx_soft_reset_def Let_def
  by (rule framed_then_wait_idle) (rule write_reg_framed)

lemma wait_dspe_trig_framed: "framed_run s (snd (s1d135xx_wait_dspe_trig s))"
  unfolding wait_dspe_trig_eq
  by (rule framed_then_wait_idle, rule framed_frame) simp

lemma wait_update_end_framed: "framed_run s (snd (s1d135xx_wait_update_end s))"
  unfolding wait_update_end_eq
  by (rule framed_then_wait_idle, rule framed_frame) simp

lemma update_framed: "framed_run s (snd (s1d135xx_update wfid s))"
proof -
  let ?s1 = "s\<lparr>trace := trace s @
                 [GpioSet (cs0 (data (dev s))) 0,
                  SpiWrite (wire16 S1D135XX_CMD_UPDATE_FULL),
                  SpiWrite (wire16 (S1D135XX_WF_MODE wfid)),
                  GpioSet (cs0 (data (dev s))) 1]\<rparr>"
  let ?s2 = "snd (s1d135xx_wait_idle ?s1)"
  have "framed_run s ?s1" by (rule framed_frame) simp
  then have a: "framed_run s ?s2" by (rule framed_then_wait_idle)
  then have b: "framed_run s (snd (s1d135xx_wait_dspe_trig ?s2))"
    using wait_dspe_trig_framed by (rule framed_run_trans)
  from a b show ?thesis by (simp add: update_eq Let_def)
qed

lemma update_area_framed: "framed_run s (snd (s1d135xx_update_area wfid area s))"
proof -
  let ?s1 = "s\<lparr>trace := trace s @
        [GpioSet (cs0 (data (dev s))) 0,
         SpiWrite (wire16 S1D135XX_CMD_UPDATE_FULL_AREA),
         SpiWrite (wire16 (S1D135XX_WF_MODE wfid)),
         SpiWrite (wire16 (left area AND 0x1FF)),
         SpiWrite (wire16 (top_y area AND 0x3FF)),
         SpiWrite (wire16 (width area AND 0x1FF)),
         SpiWrite (wire16 (height area AND 0x3FF)),
         GpioSet (cs0 (data (dev s))) 1]\<rparr>"
  let ?s2 = "snd (s1d135xx_wait_idle ?s1)"
  have "framed_run s ?s1" by (rule framed_frame) simp
  then have a: "framed_run s ?s2" by (rule framed_then_wait_idle)
  then have b: "framed_run s (snd (s1d135xx_wait_dspe_trig ?s2))"
    using wait_dspe_trig_framed by (rule framed_run_trans)
  from a b show ?thesis by (simp add: update_area_eq Let_def)
qed

lemma set_power_state_eq:
  "s1d135xx_set_power_state state s =
     (if state = PL_EPDC_OFF then (0, s\<lparr>trace := trace s @ [Log ''Warning: OFF mode not supported'']\<rparr>)
      else
        (let s1 = snd (s1d135xx_wait_idle s)
         in if fst (s1d135xx_wait_idle s) \<noteq> 0 then (- 1, s1)
            else s1d135xx_wait_idle (s1\<lparr>trace := trace s1 @
                   [GpioSet (cs0 (data (dev s))) 0,
                    SpiWrite (wire16 (ucast (pwr_cmds ! power_state_index state))),
                    GpioSet (cs0 (data (dev s))) 1]\<rparr>)))"
  by (simp add: s1d135xx_set_power_state_def set_cs_eq send_cmd_eq wire16_def Let_def
      case_prod_unfold LOG_eq wait_idle_dev)

lemma set_power_state_framed: "framed_run s (snd (s1d135xx_set_power_state state s))"
proof (cases "state = PL_EPDC_OFF")
  case True
  have "framed_run s (s\<lparr>trace := trace s @ [Log ''Warning: OFF mode not supported'']\<rparr>)"
    by (rule framed_frame) simp
  with True show ?thesis by (simp add: set_power_state_eq)
next
  case False
  let ?s1 = "snd (s1d135xx_wait_idle s)"
  let ?s2 = "?s1\<lparr>trace := trace ?s1 @
                   [GpioSet (cs0 (data (dev s))) 0,
                    SpiWrite (wire16 (ucast (pwr_cmds ! power_state_index state))),
                    GpioSet (cs0 (data (dev s))) 1]\<rparr>"
  have a: "framed_run s ?s1" by (rule wait_idle_framed)
  have "framed_run ?s1 ?s2" by (rule framed_frame) (simp add: wait_idle_dev)
  with a have "framed_run s ?s2" by (rule framed_run_trans)
  then have b: "framed_run s (snd (s1d135xx_wait_idle ?s2))" by (rule framed_then_wait_idle)
  from False a b show ?thesis by (simp add: set_power_state_eq Let_def)
qed

lemma set_power_state_dev: "dev (snd (s1d135xx_set_power_state state s)) = dev s"
  using set_power_state_framed [of s state] by (simp add: framed_run_def)

lemma init_gate_drv_framed: "framed_run s (snd (s1d135xx_init_gate_drv s))"
proof -
  let ?s1 = "snd (s1d135xx_set_power_state PL_EPDC_RUN s)"
  let ?s2 = "?s1\<lparr>trace := trace ?s1 @
                   [GpioSet (cs0 (data (dev ?s1))) 0,
                    SpiWrite (wire16 S1D135XX_CMD_EPD_GDRV_CLR),
                    GpioSet (cs0 (data (dev ?s1))) 1]\<rparr>"
  have a: "framed_run s ?s1" by (rule set_power_state_framed)
  have "framed_run ?s1 ?s2" by (rule framed_frame) simp
  with a have "framed_run s ?s2" by (rule framed_run_trans)
  then have b: "framed_run s (snd (s1d135xx_wait_idle ?s2))" by (rule framed_then_wait_idle)
  from a b show ?thesis
    by (simp add: s1d135xx_init_gate_drv_def set_cs_eq send_cmd_eq wire16_def Let_def
        case_prod_unfold)
qed

lemma load_init_code_eq:
  "s1d135xx_load_init_code s =
     (let s0 = s\<lparr>trace := trace s @ [FOpen init_code_path]\<rparr>
      in if f_open_res (env s) \<noteq> FR_OK then (- 1, s0)
         else
           (let s1 = snd (s1d135xx_wait_idle s0)
            in if fst (s1d135xx_wait_idle s0) \<noteq> 0 then (- 1, s1)
               else
                 (let s2 = s1\<lparr>trace := trace s1 @
                            [GpioSet (cs0 (data (dev s))) 0,
                             SpiWrite (wire16 S1D135XX_CMD_INIT_SET),
                             TransferFile,
                             GpioSet (cs0 (data (dev s))) 1,
                             FClose]\<rparr>;
                      s3 = snd (s1d135xx_wait_idle s2)
                  in if fst (s1d135xx_wait_idle s2) \<noteq> 0 then (- 1, s3)
                     else if transfer_res (env s) \<noteq> 0
                     then (- 1, s3\<lparr>trace := trace s3 @ [Log ''Failed to transfer init code file'']\<rparr>)
                     else
                       (let checksum = fst (s1d135xx_read_reg (REG_SEQ_AUTOBOOT_CMD (env s)) s3);
                            s4 = snd (s1d135xx_read_reg (REG_SEQ_AUTOBOOT_CMD (env s)) s3)
                        in if \<not> bit checksum 15
                           then (- 1, s4\<lparr>trace := trace s4 @ [Log ''Init code checksum error'']\<rparr>)
                           else s1d135xx_wait_idle
                                  (s4\<lparr>trace := trace s4 @
                                     [GpioSet (cs0 (data (dev s))) 0,
                                      SpiWrite (wire16 S1D135XX_CMD_INIT_STBY),
                                      GpioSet (cs0 (data (dev s))) 1,
                                      MDelay 100]\<rparr>)))))"
proof -
  have e: "S1D135XX_INIT_CODE_CHECKSUM_OK = 2 ^ 15"
    by (simp add: S1D135XX_INIT_CODE_CHECKSUM_OK_def)
  have ck: "(c AND S1D135XX_INIT_CODE_CHECKSUM_OK = 0) = (\<not> bit c 15)" for c :: u16
    by (simp only: e and_exp_eq_0_iff_not_bit)
  show ?thesis
    by (simp add: s1d135xx_load_init_code_def f_open_def transfer_file_def f_close_def emit_def
        set_cs_eq send_cmd_eq wire16_def Let_def case_prod_unfold LOG_eq mdelay_eq
        wait_idle_dev wait_idle_env ck read_reg_eq)
qed

lemma load_init_code_framed: "framed_run s (snd (s1d135xx_load_init_code s))"
proof -
  let ?s0 = "s\<lparr>trace := trace s @ [FOpen init_code_path]\<rparr>"
  let ?s1 = "snd (s1d135xx_wait_idle ?s0)"
  let ?s2 = "?s1\<lparr>trace := trace ?s1 @
                            [GpioSet (cs0 (data (dev s))) 0,
                             SpiWrite (wire16 S1D135XX_CMD_INIT_SET),
                             TransferFile,
                             GpioSet (cs0 (data (dev s))) 1,
                             FClose]\<rparr>"
  let ?s3 = "snd (s1d135xx_wait_idle ?s2)"
  let ?s3e = "?s3\<lparr>trace := trace ?s3 @ [Log ''Failed to transfer init code file'']\<rparr>"
  let ?s4 = "snd (s1d135xx_read_reg (REG_SEQ_AUTOBOOT_CMD (env s)) ?s3)"
  let ?s4e = "?s4\<lparr>trace := trace ?s4 @ [Log ''Init code checksum error'']\<rparr>"
  let ?s5 = "?s4\<lparr>trace := trace ?s4 @
                                     [GpioSet (cs0 (data (dev s))) 0,
                                      SpiWrite (wire16 S1D135XX_CMD_INIT_STBY),
                                      GpioSet (cs0 (data (dev s))) 1,
                                      MDelay 100]\<rparr>"
  have f0: "framed_run s ?s0" by (rule framed_frame) simp
  then have f1: "framed_run s ?s1" by (rule framed_then_wait_idle)
  have "framed_run ?s1 ?s2" by (rule framed_frame) (simp add: wait_idle_dev)
  with f1 have f2: "framed_run s ?s2" by (rule framed_run_trans)
  then have f3: "framed_run s ?s3" by (rule framed_then_wait_idle)
  have "framed_run ?s3 ?s3e" by (rule framed_frame) simp
  with f3 have f3e: "framed_run s ?s3e" by (rule framed_run_trans)
  from f3 read_reg_framed have f4: "framed_run s ?s4" by (rule framed_run_trans)
  have d4: "dev ?s4 = dev s" using f4 by (simp add: framed_run_def)
  have "framed_run ?s4 ?s4e" by (rule framed_frame) simp
  with f4 have f4e: "framed_run s ?s4e" by (rule framed_run_trans)
  have "framed_run ?s4 ?s5" by (rule framed_frame) (simp add: d4)
  with f4 have "framed_run s ?s5" by (rule framed_run_trans)
  then have f6: "framed_run s (snd (s1d135xx_wait_idle ?s5))" by (rule framed_then_wait_idle)
  show ?thesis
    unfolding load_init_code_eq Let_def using f0 f1 f3 f3e f4e f6 by simp
qed

lemma wait_idle_pin_now:
  assumes "hrdy (data (dev s)) \<noteq> PL_GPIO_NONE"
    and "gpio_in (env s) (gpio_cnt s) (hrdy (data (dev s))) \<noteq> 0"
  shows "s1d135xx_wait_idle s =
     (0, s\<lparr>gpio_cnt := Suc (gpio_cnt s),
          trace := trace s @
            [GpioGet (hrdy (data (dev s))) (gpio_in (env s) (gpio_cnt s) (hrdy (data (dev s))))]\<rparr>)"
proof -
  have "ready_at s 0" using assms by (simp add: ready_at_pin)
  then have "s1d135xx_wait_idle s = (0, snd (get_hrdy s))"
    using wait_idle_ready [of 0 s] by simp
  then show ?thesis using assms(1) by (simp add: get_hrdy_pin gpio_get_eq)
qed

lemma wait_idle_reg_now:
  assumes "hrdy (data (dev s)) = PL_GPIO_NONE"
    and "join16 (spi_rx (env s) (rx_pos s + 2)) (spi_rx (env s) (rx_pos s + 3))
           AND hrdy_mask (dev s) = hrdy_result (dev s)"
  shows "s1d135xx_wait_idle s = (0, snd (s1d135xx_read_reg (REG_SYSTEM_STATUS (env s)) s))"
proof -
  have "ready_at s 0" using assms ready_at_reg [of s 0] by simp
  then have "s1d135xx_wait_idle s = (0, snd (get_hrdy s))"
    using wait_idle_ready [of 0 s] by simp
  then show ?thesis using assms(1) by (simp add: get_hrdy_reg)
qed

text \<open>
  C9: every public function closes each chip-select window it opens, on every path
  out of it, the error returns included: in the events of any call the writes to
  the chip-select pin are complete windows (assert, then deassert), there are as
  many asserts as deasserts, and a line that was deasserted before the call is
  deasserted after it. \<open>s1d135xx_load_init_code\<close> in particular deasserts
  chip-select before it tests the result of the transfer and of the wait.
\<close>

theorem chip_select_closed:
  "cs_closed s (s1d135xx_hard_reset s) \<and>
   cs_closed s (snd (s1d135xx_soft_reset s)) \<and>
   cs_closed s (snd (s1d135xx_load_init_code s)) \<and>
   cs_closed s (snd (s1d135xx_init_gate_drv s)) \<and>
   cs_closed s (snd (s1d135xx_wait_dspe_trig s)) \<and>
   cs_closed s (snd (s1d135xx_update wfid s)) \<and>
   cs_closed s (snd (s1d135xx_update_area wfid area s)) \<and>
   cs_closed s (snd (s1d135xx_wait_update_end s)) \<and>
   cs_closed s (snd (s1d135xx_wait_idle s)) \<and>
   cs_closed s (snd (s1d135xx_set_power_state state s)) \<and>
   cs_closed s (s1d135xx_cmd cmd params s) \<and>
   cs_closed s (snd (s1d135xx_read_reg reg s)) \<and>
   cs_closed s (s1d135xx_write_reg reg val s)"
  by (intro conjI framed_run_cs_closed hard_reset_framed soft_reset_framed
      load_init_code_framed init_gate_drv_framed wait_dspe_trig_framed update_framed
      update_area_framed wait_update_end_framed wait_idle_framed set_power_state_framed
      cmd_framed read_reg_framed write_reg_framed)

theorem chip_select_closed_witness:
  "fst (s1d135xx_load_init_code ((ex_sys (Pin 4) (\<lambda>n. 1) (\<lambda>n. 0))
      \<lparr>env := (ex_env (\<lambda>n. 1) (\<lambda>n. 0))\<lparr>transfer_res := 1\<rparr>\<rparr>)) = - 1 \<and>
   cs_levels (Pin 2) (trace (snd (s1d135xx_load_init_code ((ex_sys (Pin 4) (\<lambda>n. 1) (\<lambda>n. 0))
      \<lparr>env := (ex_env (\<lambda>n. 1) (\<lambda>n. 0))\<lparr>transfer_res := 1\<rparr>\<rparr>)))) = [0, 1] \<and>
   cs_closed ((ex_sys (Pin 4) (\<lambda>n. 1) (\<lambda>n. 0))
      \<lparr>env := (ex_env (\<lambda>n. 1) (\<lambda>n. 0))\<lparr>transfer_res := 1\<rparr>\<rparr>)
     (snd (s1d135xx_load_init_code ((ex_sys (Pin 4) (\<lambda>n. 1) (\<lambda>n. 0))
      \<lparr>env := (ex_env (\<lambda>n. 1) (\<lambda>n. 0))\<lparr>transfer_res := 1\<rparr>\<rparr>)))"
proof -
  let ?s = "(ex_sys (Pin 4) (\<lambda>n. 1) (\<lambda>n. 0))
      \<lparr>env := (ex_env (\<lambda>n. 1) (\<lambda>n. 0))\<lparr>transfer_res := 1\<rparr>\<rparr>"
  have r: "s1d135xx_load_init_code ?s =
    (- 1, ?s\<lparr>gpio_cnt := 2,
         trace := [FOpen init_code_path, GpioGet (Pin 4) 1, GpioSet (Pin 2) 0,
           SpiWrite (wire16 S1D135XX_CMD_INIT_SET), TransferFile, GpioSet (Pin 2) 1, FClose,
           GpioGet (Pin 4) 1, Log ''Failed to transfer init code file'']\<rparr>)"
    by (simp add: load_init_code_eq Let_def wait_idle_pin_now ex_defs)
  then show ?thesis using chip_select_closed [of ?s] by simp
qed

section \<open>Power state machine: power states\<close>

lemma power_cmd_standby: "wire16 (ucast (pwr_cmds ! Suc 0)) = [0x00, 0x04]"
  by (simp add: pwr_cmds_def S1D135XX_CMD_STBY_def wire16_def hi_byte_def lo_byte_def)

lemma wait_idle_pin_never:
  assumes "hrdy (data (dev s)) \<noteq> PL_GPIO_NONE"
    and "\<forall>k<3000. gpio_in (env s) (gpio_cnt s + k) (hrdy (data (dev s))) = 0"
  shows "fst (s1d135xx_wait_idle s) = - 1"
proof -
  have "\<forall>k<3000. \<not> ready_at s k" using assms by (simp add: ready_at_pin)
  then show ?thesis by (simp add: wait_idle_timeout)
qed

text \<open>
  C3, as the code has it: \<open>s1d135xx_set_power_state\<close> called for Standby returns -1
  without sending anything when the chip is not idle; otherwise it sends the
  one-word command 0x04 (the Standby entry of the table 0x02, 0x04, 0x05) in one
  chip-select window and returns the result of a final \<open>s1d135xx_wait_idle\<close>. It
  never writes the device context, for any requested state: the remembered power
  state is after the call what it was before, on success as on failure.
\<close>

theorem set_power_state_standby:
  "(fst (s1d135xx_wait_idle s) \<noteq> 0 \<longrightarrow>
      s1d135xx_set_power_state PL_EPDC_STANDBY s = (- 1, snd (s1d135xx_wait_idle s))) \<and>
   (fst (s1d135xx_wait_idle s) = 0 \<longrightarrow>
      s1d135xx_set_power_state PL_EPDC_STANDBY s =
        s1d135xx_wait_idle
          ((snd (s1d135xx_wait_idle s))
             \<lparr>trace := trace (snd (s1d135xx_wait_idle s)) @
                [GpioSet (cs0 (data (dev s))) 0, SpiWrite [0x00, 0x04],
                 GpioSet (cs0 (data (dev s))) 1]\<rparr>)) \<and>
   dev (snd (s1d135xx_set_power_state state s)) = dev s"
proof -
  have "s1d135xx_set_power_state PL_EPDC_STANDBY s =
     (if fst (s1d135xx_wait_idle s) \<noteq> 0 then (- 1, snd (s1d135xx_wait_idle s))
      else s1d135xx_wait_idle
          ((snd (s1d135xx_wait_idle s))
             \<lparr>trace := trace (snd (s1d135xx_wait_idle s)) @
                [GpioSet (cs0 (data (dev s))) 0, SpiWrite [0x00, 0x04],
                 GpioSet (cs0 (data (dev s))) 1]\<rparr>))"
    by (simp add: set_power_state_eq Let_def power_cmd_standby)
  then show ?thesis using set_power_state_dev [of state s] by simp
qed

theorem set_power_state_standby_witness:
  "s1d135xx_set_power_state PL_EPDC_STANDBY (ex_sys (Pin 4) (\<lambda>n. 1) (\<lambda>n. 0)) =
     (0, (ex_sys (Pin 4) (\<lambda>n. 1) (\<lambda>n. 0))
           \<lparr>gpio_cnt := 2,
            trace := [GpioGet (Pin 4) 1, GpioSet (Pin 2) 0, SpiWrite [0x00, 0x04],
                      GpioSet (Pin 2) 1, GpioGet (Pin 4) 1]\<rparr>) \<and>
   fst (s1d135xx_set_power_state PL_EPDC_STANDBY (ex_sys (Pin 4) (\<lambda>n. 0) (\<lambda>n. 0))) = - 1"
proof -
  let ?ok = "ex_sys (Pin 4) (\<lambda>n. 1) (\<lambda>n. 0)"
  let ?never = "ex_sys (Pin 4) (\<lambda>n. 0) (\<lambda>n. 0)"
  have a: "s1d135xx_wait_idle ?ok = (0, ?ok\<lparr>gpio_cnt := 1, trace := [GpioGet (Pin 4) 1]\<rparr>)"
    by (simp add: wait_idle_pin_now ex_defs)
  have b: "fst (s1d135xx_wait_idle ?never) = - 1"
    by (rule wait_idle_pin_never) (simp_all add: ex_defs)
  have c: "s1d135xx_wait_idle
     (?ok\<lparr>gpio_cnt := 1,
         trace := [GpioGet (Pin 4) 1, GpioSet (Pin 2) 0, SpiWrite [0x00, 0x04], GpioSet (Pin 2) 1]\<rparr>) =
     (0, ?ok\<lparr>gpio_cnt := 2,
            trace := [GpioGet (Pin 4) 1, GpioSet (Pin 2) 0, SpiWrite [0x00, 0x04],
                      GpioSet (Pin 2) 1, GpioGet (Pin 4) 1]\<rparr>)"
    by (simp add: wait_idle_pin_now ex_defs)
  have d: "cs0 (data (dev ?ok)) = Pin 2" by (simp add: ex_defs)
  from set_power_state_standby [of ?ok] a c d
  have "s1d135xx_set_power_state PL_EPDC_STANDBY ?ok =
     (0, ?ok\<lparr>gpio_cnt := 2,
            trace := [GpioGet (Pin 4) 1, GpioSet (Pin 2) 0, SpiWrite [0x00, 0x04],
                      GpioSet (Pin 2) 1, GpioGet (Pin 4) 1]\<rparr>)"
    by simp
  moreover from set_power_state_standby [of ?never] b
  have "fst (s1d135xx_set_power_state PL_EPDC_STANDBY ?never) = - 1" by simp
  ultimately show ?thesis by simp
qed

text \<open>
  C3, as stated, fails: on a board whose HRDY pin reads ready, a context that
  remembers Run still remembers Run, not Standby, after a successful
  \<open>s1d135xx_set_power_state\<close> for Standby that sent the command 0x04.
\<close>

theorem set_power_state_keeps_remembered_state:
  "fst (s1d135xx_set_power_state PL_EPDC_STANDBY (ex_sys (Pin 4) (\<lambda>n. 1) (\<lambda>n. 0))) = 0 \<and>
   bus_out (trace (snd (s1d135xx_set_power_state PL_EPDC_STANDBY (ex_sys (Pin 4) (\<lambda>n. 1) (\<lambda>n. 0))))) =
     [GpioSet (Pin 2) 0, SpiWrite [0x00, 0x04], GpioSet (Pin 2) 1] \<and>
   power_state (dev (ex_sys (Pin 4) (\<lambda>n. 1) (\<lambda>n. 0))) = PL_EPDC_RUN \<and>
   power_state (dev (snd (s1d135xx_set_power_state PL_EPDC_STANDBY
      (ex_sys (Pin 4) (\<lambda>n. 1) (\<lambda>n. 0))))) \<noteq> PL_EPDC_STANDBY"
  by (simp add: set_power_state_eq Let_def wait_idle_pin_now power_cmd_standby ex_defs)

section \<open>Power state machine: init code\<close>

lemma wire16_6: "wire16 S1D135XX_CMD_INIT_STBY = [0x00, 0x06]"
  by (simp add: wire16_def hi_byte_def lo_byte_def S1D135XX_CMD_INIT_STBY_def)

text \<open>
  C4: when the file opens, the chip is idle, the transfer reports no error and the
  chip is idle again, \<open>s1d135xx_load_init_code\<close> reads \<open>SEQ_AUTOBOOT_CMD\<close>. With
  bit 15 of the value clear it logs the checksum error and returns -1; nothing is
  sent after the register read, so no \<open>INIT_STBY\<close>. With bit 15 set it sends
  \<open>INIT_STBY\<close> (0x06) in a chip-select window of its own, waits 100 ms and returns
  what one more \<open>s1d135xx_wait_idle\<close> returns.
\<close>

theorem load_init_code_checksum:
  "(let s0 = snd (f_open init_code_path s);
        s1 = snd (s1d135xx_wait_idle s0);
        s2 = f_close (set_cs 1 (snd (transfer_file (send_cmd S1D135XX_CMD_INIT_SET (set_cs 0 s1)))));
        s3 = snd (s1d135xx_wait_idle s2);
        checksum = fst (s1d135xx_read_reg (REG_SEQ_AUTOBOOT_CMD (env s)) s3);
        s4 = snd (s1d135xx_read_reg (REG_SEQ_AUTOBOOT_CMD (env s)) s3)
    in f_open_res (env s) = FR_OK \<and> fst (s1d135xx_wait_idle s0) = 0 \<and>
       transfer_res (env s) = 0 \<and> fst (s1d135xx_wait_idle s2) = 0 \<longrightarrow>
       (\<not> bit checksum 15 \<longrightarrow>
          s1d135xx_load_init_code s =
            (- 1, s4\<lparr>trace := trace s4 @ [Log ''Init code checksum error'']\<rparr>)) \<and>
       (bit checksum 15 \<longrightarrow>
          s1d135xx_load_init_code s =
            s1d135xx_wait_idle
              (s4\<lparr>trace := trace s4 @
                 [GpioSet (cs0 (data (dev s))) 0, SpiWrite [0x00, 0x06],
                  GpioSet (cs0 (data (dev s))) 1, MDelay 100]\<rparr>)))"
  by (simp add: load_init_code_eq Let_def f_open_def f_close_def transfer_file_def emit_def
      set_cs_eq send_cmd_eq wire16_6 wire16_def [symmetric] wait_idle_dev wait_idle_env)

theorem load_init_code_checksum_witness:
  "s1d135xx_load_init_code (ex_sys (Pin 4) (\<lambda>n. 1) (\<lambda>n. 0)) =
     (- 1, (ex_sys (Pin 4) (\<lambda>n. 1) (\<lambda>n. 0))
        \<lparr>gpio_cnt := 2, rx_pos := 4,
         trace := [FOpen ''bin/Ecode.bin'', GpioGet (Pin 4) 1,
           GpioSet (Pin 2) 0, SpiWrite [0x00, 0x00], TransferFile, GpioSet (Pin 2) 1, FClose,
           GpioGet (Pin 4) 1,
           GpioSet (Pin 2) 0, SpiWrite [0x00, 0x10], SpiWrite [0x02, 0xA8],
           SpiRead [0, 0], SpiRead [0, 0], GpioSet (Pin 2) 1,
           Log ''Init code checksum error'']\<rparr>) \<and>
   s1d135xx_load_init_code (ex_sys (Pin 4) (\<lambda>n. 1) (\<lambda>n. 0x80)) =
     (0, (ex_sys (Pin 4) (\<lambda>n. 1) (\<lambda>n. 0x80))
        \<lparr>gpio_cnt := 3, rx_pos := 4,
         trace := [FOpen ''bin/Ecode.bin'', GpioGet (Pin 4) 1,
           GpioSet (Pin 2) 0, SpiWrite [0x00, 0x00], TransferFile, GpioSet (Pin 2) 1, FClose,
           GpioGet (Pin 4) 1,
           GpioSet (Pin 2) 0, SpiWrite [0x00, 0x10], SpiWrite [0x02, 0xA8],
           SpiRead [0x80, 0x80], SpiRead [0x80, 0x80], GpioSet (Pin 2) 1,
           GpioSet (Pin 2) 0, SpiWrite [0x00, 0x06], GpioSet (Pin 2) 1, MDelay 100,
           GpioGet (Pin 4) 1]\<rparr>)"
proof -
  let ?bad = "ex_sys (Pin 4) (\<lambda>n. 1) (\<lambda>n. 0)"
  let ?good = "ex_sys (Pin 4) (\<lambda>n. 1) (\<lambda>n. 0x80)"
  note ev = Let_def f_open_def f_close_def transfer_file_def emit_def set_cs_eq send_cmd_eq
    wait_idle_pin_now read_reg_eq ex_defs init_code_path_def join16_def wire16_def
    hi_byte_def lo_byte_def cmd_defs
  have a: "s1d135xx_load_init_code ?bad =
     (- 1, ?bad
        \<lparr>gpio_cnt := 2, rx_pos := 4,
         trace := [FOpen ''bin/Ecode.bin'', GpioGet (Pin 4) 1,
           GpioSet (Pin 2) 0, SpiWrite [0x00, 0x00], TransferFile, GpioSet (Pin 2) 1, FClose,
           GpioGet (Pin 4) 1,
           GpioSet (Pin 2) 0, SpiWrite [0x00, 0x10], SpiWrite [0x02, 0xA8],
           SpiRead [0, 0], SpiRead [0, 0], GpioSet (Pin 2) 1,
           Log ''Init code checksum error'']\<rparr>)"
    using load_init_code_checksum [of ?bad] by (simp add: ev)
  have b: "s1d135xx_load_init_code ?good =
     (0, ?good
        \<lparr>gpio_cnt := 3, rx_pos := 4,
         trace := [FOpen ''bin/Ecode.bin'', GpioGet (Pin 4) 1,
           GpioSet (Pin 2) 0, SpiWrite [0x00, 0x00], TransferFile, GpioSet (Pin 2) 1, FClose,
           GpioGet (Pin 4) 1,
           GpioSet (Pin 2) 0, SpiWrite [0x00, 0x10], SpiWrite [0x02, 0xA8],
           SpiRead [0x80, 0x80], SpiRead [0x80, 0x80], GpioSet (Pin 2) 1,
           GpioSet (Pin 2) 0, SpiWrite [0x00, 0x06], GpioSet (Pin 2) 1, MDelay 100,
           GpioGet (Pin 4) 1]\<rparr>)"
    using load_init_code_checksum [of ?good] by (simp add: ev)
  from a b show ?thesis by simp
qed

section \<open>Update sequencer: update, then wait for the end\<close>

lemma cmd_codes_bus_out: "cmd_codes c opened (bus_out evs) = cmd_codes c opened evs"
  by (induction c opened evs rule: cmd_codes.induct) simp_all

lemma of_bytes_wire16: "of_bytes BigEndian (wire16 v) = v"
  by (simp add: wire16_def join16_hi_lo)

lemma frame_then_wait_idle_bus:
  assumes "hrdy (data (dev s)) \<noteq> PL_GPIO_NONE"
  shows "silent_run (s\<lparr>trace := trace s @ F\<rparr>) (snd (s1d135xx_wait_idle (s\<lparr>trace := trace s @ F\<rparr>)))"
  by (rule wait_idle_silent) (simp add: assms)

lemma bus_out_after_frame:
  assumes "silent_run (s\<lparr>trace := trace s @ F\<rparr>) s'"
  shows "dev s' = dev s \<and> env s' = env s \<and> prefix (trace s) (trace s') \<and>
         bus_out (emitted s s') = bus_out F"
proof -
  let ?s1 = "s\<lparr>trace := trace s @ F\<rparr>"
  from assms have p: "prefix (trace ?s1) (trace s')" and b: "bus_out (emitted ?s1 s') = []"
    and d: "dev s' = dev s" "env s' = env s"
    by (simp_all add: silent_run_def)
  have q: "prefix (trace s) (trace ?s1)" by simp
  have "emitted s s' = emitted s ?s1 @ emitted ?s1 s'" using q p by (rule emitted_trans)
  moreover have "emitted s ?s1 = F" by (simp add: emitted_def)
  moreover from q p have "prefix (trace s) (trace s')" by (rule prefix_order.trans)
  ultimately show ?thesis using b d by (simp add: bus_out_append)
qed

text \<open>
  C5, as the code has it: on a board with an HRDY pin, when \<open>s1d135xx_update\<close>
  succeeds, the chip sees from it and the following \<open>s1d135xx_wait_update_end\<close>
  exactly three chip-select windows, each with one command: \<open>UPDATE_FULL\<close> (0x33)
  with the waveform mode word, \<open>WAIT_DSPE_TRG\<close> (0x28) and \<open>WAIT_DSPE_FREND\<close>
  (0x29), in this order.
\<close>

theorem update_then_wait_update_end:
  assumes "hrdy (data (dev s)) \<noteq> PL_GPIO_NONE"
    and "fst (s1d135xx_update wfid s) = 0"
  shows "bus_out (emitted s (snd (s1d135xx_wait_update_end (snd (s1d135xx_update wfid s))))) =
     [GpioSet (cs0 (data (dev s))) 0,
      SpiWrite (wire16 S1D135XX_CMD_UPDATE_FULL),
      SpiWrite (wire16 (S1D135XX_WF_MODE wfid)),
      GpioSet (cs0 (data (dev s))) 1,
      GpioSet (cs0 (data (dev s))) 0,
      SpiWrite (wire16 S1D135XX_CMD_WAIT_DSPE_TRG),
      GpioSet (cs0 (data (dev s))) 1,
      GpioSet (cs0 (data (dev s))) 0,
      SpiWrite (wire16 S1D135XX_CMD_WAIT_DSPE_FREND),
      GpioSet (cs0 (data (dev s))) 1] \<and>
   cmd_codes (cs0 (data (dev s))) False
     (emitted s (snd (s1d135xx_wait_update_end (snd (s1d135xx_update wfid s))))) =
     [0x33, 0x28, 0x29]"
proof -
  let ?cs = "cs0 (data (dev s))"
  let ?F1 = "[GpioSet ?cs 0, SpiWrite (wire16 S1D135XX_CMD_UPDATE_FULL),
              SpiWrite (wire16 (S1D135XX_WF_MODE wfid)), GpioSet ?cs 1]"
  let ?F2 = "[GpioSet ?cs 0, SpiWrite (wire16 S1D135XX_CMD_WAIT_DSPE_TRG), GpioSet ?cs 1]"
  let ?F3 = "[GpioSet ?cs 0, SpiWrite (wire16 S1D135XX_CMD_WAIT_DSPE_FREND), GpioSet ?cs 1]"
  let ?a = "snd (s1d135xx_wait_idle (s\<lparr>trace := trace s @ ?F1\<rparr>))"
  let ?b = "snd (s1d135xx_wait_idle (?a\<lparr>trace := trace ?a @ ?F2\<rparr>))"
  let ?c = "snd (s1d135xx_wait_idle (?b\<lparr>trace := trace ?b @ ?F3\<rparr>))"
  have A: "dev ?a = dev s \<and> env ?a = env s \<and> prefix (trace s) (trace ?a) \<and>
         bus_out (emitted s ?a) = bus_out ?F1"
    by (rule bus_out_after_frame, rule frame_then_wait_idle_bus) (rule assms(1))
  then have pa: "hrdy (data (dev ?a)) \<noteq> PL_GPIO_NONE" using assms(1) by simp
  have B: "dev ?b = dev ?a \<and> env ?b = env ?a \<and> prefix (trace ?a) (trace ?b) \<and>
         bus_out (emitted ?a ?b) = bus_out ?F2"
    by (rule bus_out_after_frame, rule frame_then_wait_idle_bus) (rule pa)
  then have pb: "hrdy (data (dev ?b)) \<noteq> PL_GPIO_NONE" using pa by simp
  have C: "dev ?c = dev ?b \<and> env ?c = env ?b \<and> prefix (trace ?b) (trace ?c) \<and>
         bus_out (emitted ?b ?c) = bus_out ?F3"
    by (rule bus_out_after_frame, rule frame_then_wait_idle_bus) (rule pb)
  have idle: "fst (s1d135xx_wait_idle (s\<lparr>trace := trace s @ ?F1\<rparr>)) = 0"
  proof (rule ccontr)
    assume "fst (s1d135xx_wait_idle (s\<lparr>trace := trace s @ ?F1\<rparr>)) \<noteq> 0"
    then have "fst (s1d135xx_update wfid s) = - 1" by (simp add: update_eq Let_def)
    with assms(2) show False by simp
  qed
  have u: "snd (s1d135xx_update wfid s) = ?b"
    using idle A by (simp add: update_eq wait_dspe_trig_eq Let_def)
  have e: "snd (s1d135xx_wait_update_end (snd (s1d135xx_update wfid s))) = ?c"
    using A B by (simp add: u wait_update_end_eq)
  have ab: "prefix (trace s) (trace ?b)" using A B by (blast intro: prefix_order.trans)
  have "emitted s ?c = emitted s ?b @ emitted ?b ?c" using ab C by (blast intro: emitted_trans)
  moreover have "emitted s ?b = emitted s ?a @ emitted ?a ?b" using A B by (blast intro: emitted_trans)
  ultimately have bus: "bus_out (emitted s ?c) = ?F1 @ ?F2 @ ?F3"
    using A B C by (simp add: bus_out_append)
  have "cmd_codes ?cs False (emitted s ?c) = cmd_codes ?cs False (bus_out (emitted s ?c))"
    by (simp add: cmd_codes_bus_out)
  also have "\<dots> = [S1D135XX_CMD_UPDATE_FULL, S1D135XX_CMD_WAIT_DSPE_TRG, S1D135XX_CMD_WAIT_DSPE_FREND]"
    unfolding bus by (simp add: of_bytes_wire16)
  finally show ?thesis unfolding e using bus by (simp add: cmd_defs)
qed

theorem update_then_wait_update_end_witness:
  "cmd_codes (Pin 2) False
     (emitted (ex_sys (Pin 4) (\<lambda>n. 1) (\<lambda>n. 0))
        (snd (s1d135xx_wait_update_end (snd (s1d135xx_update 2 (ex_sys (Pin 4) (\<lambda>n. 1) (\<lambda>n. 0))))))) =
     [0x33, 0x28, 0x29]"
proof -
  let ?s = "ex_sys (Pin 4) (\<lambda>n. 1) (\<lambda>n. 0)"
  have a: "hrdy (data (dev ?s)) \<noteq> PL_GPIO_NONE" by (simp add: ex_defs)
  have b: "fst (s1d135xx_update 2 ?s) = 0"
    by (simp add: update_eq wait_dspe_trig_eq Let_def wait_idle_pin_now ex_defs)
  have c: "cs0 (data (dev ?s)) = Pin 2" by (simp add: ex_defs)
  from update_then_wait_update_end [OF a b] show ?thesis unfolding c by simp
qed

text \<open>
  C5, as stated, fails on a board without an HRDY pin: every readiness check reads
  the status register, a \<open>READ_REG\<close> (0x10) command in a window of its own. With
  a chip that is ready at each first check the two calls issue six commands.
\<close>

theorem update_polls_status_register:
  "hrdy (data (dev (ex_sys PL_GPIO_NONE (\<lambda>n. 0) (\<lambda>n. 0x20)))) = PL_GPIO_NONE \<and>
   fst (s1d135xx_update 2 (ex_sys PL_GPIO_NONE (\<lambda>n. 0) (\<lambda>n. 0x20))) = 0 \<and>
   fst (s1d135xx_wait_update_end
         (snd (s1d135xx_update 2 (ex_sys PL_GPIO_NONE (\<lambda>n. 0) (\<lambda>n. 0x20))))) = 0 \<and>
   cmd_codes (Pin 2) False
     (emitted (ex_sys PL_GPIO_NONE (\<lambda>n. 0) (\<lambda>n. 0x20))
        (snd (s1d135xx_wait_update_end
               (snd (s1d135xx_update 2 (ex_sys PL_GPIO_NONE (\<lambda>n. 0) (\<lambda>n. 0x20))))))) =
     [0x33, 0x10, 0x28, 0x10, 0x29, 0x10] \<and>
   cmd_codes (Pin 2) False
     (emitted (ex_sys PL_GPIO_NONE (\<lambda>n. 0) (\<lambda>n. 0x20))
        (snd (s1d135xx_wait_update_end
               (snd (s1d135xx_update 2 (ex_sys PL_GPIO_NONE (\<lambda>n. 0) (\<lambda>n. 0x20))))))) \<noteq>
     [0x33, 0x28, 0x29]"
proof -
  let ?s = "ex_sys PL_GPIO_NONE (\<lambda>n. 0) (\<lambda>n. 0x20)"
  note ev = update_eq wait_dspe_trig_eq wait_update_end_eq Let_def wait_idle_reg_now read_reg_eq
    ex_defs join16_def wire16_def hi_byte_def lo_byte_def cmd_defs S1D135XX_WF_MODE_def
  have u: "s1d135xx_update 2 ?s =
    (0, ?s\<lparr>rx_pos := 8,
         trace := [GpioSet (Pin 2) 0, SpiWrite [0x00, 0x33], SpiWrite [0x02, 0x00], GpioSet (Pin 2) 1,
           GpioSet (Pin 2) 0, SpiWrite [0x00, 0x10], SpiWrite [0x00, 0x0A],
           SpiRead [0x20, 0x20], SpiRead [0x20, 0x20], GpioSet (Pin 2) 1,
           GpioSet (Pin 2) 0, SpiWrite [0x00, 0x28], GpioSet (Pin 2) 1,
           GpioSet (Pin 2) 0, SpiWrite [0x00, 0x10], SpiWrite [0x00, 0x0A],
           SpiRead [0x20, 0x20], SpiRead [0x20, 0x20], GpioSet (Pin 2) 1]\<rparr>)"
    by (simp add: ev)
  have w: "s1d135xx_wait_update_end (snd (s1d135xx_update 2 ?s)) =
    (0, ?s\<lparr>rx_pos := 12,
         trace := [GpioSet (Pin 2) 0, SpiWrite [0x00, 0x33], SpiWrite [0x02, 0x00], GpioSet (Pin 2) 1,
           GpioSet (Pin 2) 0, SpiWrite [0x00, 0x10], SpiWrite [0x00, 0x0A],
           SpiRead [0x20, 0x20], SpiRead [0x20, 0x20], GpioSet (Pin 2) 1,
           GpioSet (Pin 2) 0, SpiWrite [0x00, 0x28], GpioSet (Pin 2) 1,
           GpioSet (Pin 2) 0, SpiWrite [0x00, 0x10], SpiWrite [0x00, 0x0A],
           SpiRead [0x20, 0x20], SpiRead [0x20, 0x20], GpioSet (Pin 2) 1,
           GpioSet (Pin 2) 0, SpiWrite [0x00, 0x29], GpioSet (Pin 2) 1,
           GpioSet (Pin 2) 0, SpiWrite [0x00, 0x10], SpiWrite [0x00, 0x0A],
           SpiRead [0x20, 0x20], SpiRead [0x20, 0x20], GpioSet (Pin 2) 1]\<rparr>)"
    unfolding u by (simp add: ev)
  show ?thesis
    apply (simp only: w)
    apply (simp only: u)
    apply (simp add: emitted_def join16_def ex_defs)
    done
qed

end
